theory Spec2Isabelle
  imports Main "HOL-Library.AList" "HOL-Library.Multiset"
begin

section \<open>Data model\<close>

text \<open>
  The Go package \<^verbatim>\<open>reflux\<close> keeps two in-memory registries (\<^verbatim>\<open>sync.Map\<close>) that
  mirror buckets of one BoltDB file, the lock file. The records are those of the source.
  Go's \<^verbatim>\<open>int\<close> fields are only stored and compared, never computed with, so they are
  \<open>int\<close>. A \<^verbatim>\<open>time.Time\<close> is a number, the zero time being \<open>0\<close>.
\<close>

datatype TransferStatus = StatusNotStarted | StatusInProgress | StatusCompleted | StatusFailed

type_synonym time = nat

record FileMetadata =
  SourcePath :: string
  TargetPath :: string
  Status :: TransferStatus
  BytesTransferred :: int
  TimeStart :: time
  TimeEnd :: time
  ErrorMsg :: string

record ServerInfo =
  Address :: string
  Port :: int
  User :: string

text \<open>The zero value \<^verbatim>\<open>FileMetadata{}\<close>, returned by \<^verbatim>\<open>Load\<close> for a missing key.\<close>

definition FileMetadata_zero :: FileMetadata where
  "FileMetadata_zero =
     \<lparr>SourcePath = [], TargetPath = [], Status = StatusNotStarted, BytesTransferred = 0,
      TimeStart = 0, TimeEnd = 0, ErrorMsg = []\<rparr>"

text \<open>
  Every error value the package or the store returns. An error handed in by the caller
  (the \<^verbatim>\<open>err\<close> argument of \<^verbatim>\<open>UpdateStatus\<close>, the error of a transfer function) is
  used only through \<^verbatim>\<open>err != nil\<close> and \<^verbatim>\<open>err.Error()\<close>, so it is a
  \<open>string option\<close>: \<open>None\<close> is \<^verbatim>\<open>nil\<close>, \<open>Some s\<close> an error whose text is \<open>s\<close>.
\<close>

datatype error =
    ErrKeyNotFound string
  | ErrNoFilesFound
  | ErrAttBucketNotFound
  | ErrServerInfoNotSet
  | ErrInvalidAddressFormat string
  | ErrInvalidPort int
  | ErrEmptyUser
  | ErrGob
  | ErrDatabaseNotOpen
  | ErrBucketNameRequired
  | ErrKeyRequired
  | ErrKeyTooLarge
  | ErrIO
  | ErrWrap string error

section \<open>The durable store (BoltDB)\<close>

text \<open>
  A bucket is an association list from keys to encoded values, the root of the file an
  association list from bucket names to buckets. (Bolt iterates a bucket in key order and
  \<^verbatim>\<open>sync.Map.Range\<close> in no specified order; here both follow the list, and the
  theorems below speak of the records as a multiset or through lookups.)
  The handle carries the file's committed content, whether it is open, and \<open>faults\<close>,
  the outcomes of the I/O operations still to come (\<open>True\<close>: the operation fails;
  an exhausted list: no further failure). Open, commit, flush, close and the removal of
  the file each consume one outcome.
\<close>

type_synonym 'b bucket = "(string \<times> 'b) list"

type_synonym 'b root = "(string \<times> 'b bucket) list"

record 'b DB =
  opened :: bool
  buckets :: "'b root"
  faults :: "bool list"

definition filesBucket :: string where
  "filesBucket = ''Files''"

definition serverBucket :: string where
  "serverBucket = ''Server''"

definition additionalDataBucket :: string where
  "additionalDataBucket = ''AdditionalData''"

definition serverInfoKey :: string where
  "serverInfoKey = ''Info''"

definition io_fault :: "'b DB \<Rightarrow> bool \<times> 'b DB" where
  "io_fault d = (case faults d of [] \<Rightarrow> (False, d) | f # fs \<Rightarrow> (f, d\<lparr>faults := fs\<rparr>))"

text \<open>\<^verbatim>\<open>bolt.Open\<close>: opens the file, creating an empty store when there is none.\<close>

definition bolt_Open :: "bool list \<Rightarrow> 'b root option \<Rightarrow> error + 'b DB" where
  "bolt_Open fl lockfile =
     (case io_fault \<lparr>opened = True,
                     buckets = (case lockfile of None \<Rightarrow> [] | Some r \<Rightarrow> r),
                     faults = fl\<rparr> of
        (True, d) \<Rightarrow> Inl ErrIO
      | (False, d) \<Rightarrow> Inr d)"

text \<open>
  \<^verbatim>\<open>db.Update(fn)\<close>: runs \<open>fn\<close> on the content; an error of \<open>fn\<close> rolls back,
  otherwise the commit either fails (content unchanged) or installs the new content.
\<close>

definition db_Update :: "('b root \<Rightarrow> error + 'b root) \<Rightarrow> 'b DB \<Rightarrow> error option \<times> 'b DB" where
  "db_Update fn d =
     (if \<not> opened d then (Some ErrDatabaseNotOpen, d)
      else case fn (buckets d) of
          Inl e \<Rightarrow> (Some e, d)
        | Inr tx \<Rightarrow>
            (case io_fault d of
               (True, d') \<Rightarrow> (Some ErrIO, d')
             | (False, d') \<Rightarrow> (None, d'\<lparr>buckets := tx\<rparr>)))"

text \<open>\<^verbatim>\<open>db.Sync()\<close>: the flush; on a closed handle the file descriptor is invalid.\<close>

definition db_Sync :: "'b DB \<Rightarrow> error option \<times> 'b DB" where
  "db_Sync d =
     (if \<not> opened d then (Some ErrIO, d)
      else case io_fault d of
          (True, d') \<Rightarrow> (Some ErrIO, d')
        | (False, d') \<Rightarrow> (None, d'))"

definition db_Close :: "'b DB \<Rightarrow> error option \<times> 'b DB" where
  "db_Close d =
     (if \<not> opened d then (None, d)
      else case io_fault d of
          (True, d') \<Rightarrow> (Some ErrIO, d')
        | (False, d') \<Rightarrow> (None, d'\<lparr>opened := False\<rparr>))"

definition tx_Bucket :: "string \<Rightarrow> 'b root \<Rightarrow> 'b bucket option" where
  "tx_Bucket name tx = map_of tx name"

definition tx_CreateBucketIfNotExists :: "string \<Rightarrow> 'b root \<Rightarrow> error + ('b bucket \<times> 'b root)" where
  "tx_CreateBucketIfNotExists name tx =
     (if name = [] then Inl ErrBucketNameRequired
      else case map_of tx name of
          Some b \<Rightarrow> Inr (b, tx)
        | None \<Rightarrow> Inr ([], AList.update name [] tx))"

text \<open>\<^verbatim>\<open>Bucket.Put\<close> refuses an empty key and a key above \<^verbatim>\<open>MaxKeySize\<close>.\<close>

definition bucket_Put :: "string \<Rightarrow> 'b \<Rightarrow> 'b bucket \<Rightarrow> error + 'b bucket" where
  "bucket_Put k v b =
     (if k = [] then Inl ErrKeyRequired
      else if length k > 32768 then Inl ErrKeyTooLarge
      else Inr (AList.update k v b))"

definition bucket_Delete :: "string \<Rightarrow> 'b bucket \<Rightarrow> 'b bucket" where
  "bucket_Delete k b = AList.delete k b"

section \<open>The codec and the resolver\<close>

text \<open>
  \<^verbatim>\<open>encoding/gob\<close> is a parameter: an encoder and a decoder for each of the three
  kinds of value, either of which may fail. \<open>'a\<close> is the type of attribute payloads,
  \<open>'b\<close> the type of encoded values. \<^verbatim>\<open>url.Parse\<close> and \<^verbatim>\<open>net.ResolveIPAddr\<close> are
  parameters too; they return the text of their error, if any.
\<close>

record ('a, 'b) gob =
  encFile :: "FileMetadata \<Rightarrow> 'b option"
  decFile :: "'b \<Rightarrow> FileMetadata option"
  encAttr :: "'a \<Rightarrow> 'b option"
  decAttr :: "'b \<Rightarrow> 'a option"
  encInfo :: "ServerInfo \<Rightarrow> 'b option"
  decInfo :: "'b \<Rightarrow> ServerInfo option"

record net =
  url_Parse :: "string \<Rightarrow> string option"
  net_ResolveIPAddr :: "string \<Rightarrow> string option"

text \<open>A lossless codec into a tagged value, to run the model on concrete inputs.\<close>

datatype blob = FileBlob FileMetadata | AttrBlob string | InfoBlob ServerInfo

definition tagged_gob :: "(string, blob) gob" where
  "tagged_gob =
     \<lparr>encFile = (\<lambda>r. Some (FileBlob r)),
      decFile = (\<lambda>b. case b of FileBlob r \<Rightarrow> Some r | _ \<Rightarrow> None),
      encAttr = (\<lambda>a. Some (AttrBlob a)),
      decAttr = (\<lambda>b. case b of AttrBlob a \<Rightarrow> Some a | _ \<Rightarrow> None),
      encInfo = (\<lambda>s. Some (InfoBlob s)),
      decInfo = (\<lambda>b. case b of InfoBlob s \<Rightarrow> Some s | _ \<Rightarrow> None)\<rparr>"

definition local_net :: net where
  "local_net = \<lparr>url_Parse = (\<lambda>a. None), net_ResolveIPAddr = (\<lambda>a. None)\<rparr>"

section \<open>The transfer registry (\<^verbatim>\<open>fileMetadataMap\<close>)\<close>

record 'b fileMetadataMap =
  fmm_m :: "(string \<times> FileMetadata) list"
  fmm_db :: "'b DB"

fun fmm_loadAll_ForEach ::
  "('a, 'b) gob \<Rightarrow> 'b bucket \<Rightarrow> 'b fileMetadataMap \<Rightarrow> error option \<times> 'b fileMetadataMap" where
  "fmm_loadAll_ForEach g [] fmm = (None, fmm)"
| "fmm_loadAll_ForEach g ((k, v) # kvs) fmm =
     (case decFile g v of
        None \<Rightarrow> (Some ErrGob, fmm)
      | Some metadata \<Rightarrow>
          fmm_loadAll_ForEach g kvs (fmm\<lparr>fmm_m := AList.update k metadata (fmm_m fmm)\<rparr>))"

definition fmm_loadAll ::
  "('a, 'b) gob \<Rightarrow> 'b root \<Rightarrow> 'b fileMetadataMap \<Rightarrow> error option \<times> 'b fileMetadataMap" where
  "fmm_loadAll g tx fmm =
     (case tx_Bucket filesBucket tx of
        None \<Rightarrow> (None, fmm)
      | Some b \<Rightarrow> fmm_loadAll_ForEach g b fmm)"

definition fmm_StoreOrUpdate ::
  "('a, 'b) gob \<Rightarrow> FileMetadata \<Rightarrow> 'b fileMetadataMap \<Rightarrow> error option \<times> 'b fileMetadataMap" where
  "fmm_StoreOrUpdate g metadata fmm =
     (case db_Update
             (\<lambda>tx. case tx_CreateBucketIfNotExists filesBucket tx of
                      Inl e \<Rightarrow> Inl e
                    | Inr (b, tx') \<Rightarrow>
                        (case encFile g metadata of
                           None \<Rightarrow> Inl ErrGob
                         | Some buf \<Rightarrow>
                             (case bucket_Put (SourcePath metadata) buf b of
                                Inl e \<Rightarrow> Inl e
                              | Inr b' \<Rightarrow> Inr (AList.update filesBucket b' tx'))))
             (fmm_db fmm) of
        (Some e, d) \<Rightarrow> (Some e, fmm\<lparr>fmm_db := d\<rparr>)
      | (None, d) \<Rightarrow>
          (None, \<lparr>fmm_m = AList.update (SourcePath metadata) metadata (fmm_m fmm),
                  fmm_db = d\<rparr>))"

definition fmm_syncFile ::
  "('a, 'b) gob \<Rightarrow> string \<Rightarrow> 'b fileMetadataMap \<Rightarrow> error option \<times> 'b fileMetadataMap" where
  "fmm_syncFile g sourcePath fmm =
     (case map_of (fmm_m fmm) sourcePath of
        None \<Rightarrow> (Some (ErrKeyNotFound sourcePath), fmm)
      | Some meta \<Rightarrow> fmm_StoreOrUpdate g meta fmm)"

definition fmm_Load :: "string \<Rightarrow> 'b fileMetadataMap \<Rightarrow> FileMetadata \<times> bool" where
  "fmm_Load sourcePath fmm =
     (case map_of (fmm_m fmm) sourcePath of
        None \<Rightarrow> (FileMetadata_zero, False)
      | Some meta \<Rightarrow> (meta, True))"

definition fmm_Delete :: "string \<Rightarrow> 'b fileMetadataMap \<Rightarrow> error option \<times> 'b fileMetadataMap" where
  "fmm_Delete sourcePath fmm =
     (case db_Update
             (\<lambda>tx. case tx_Bucket filesBucket tx of
                      None \<Rightarrow> Inr tx
                    | Some b \<Rightarrow> Inr (AList.update filesBucket (bucket_Delete sourcePath b) tx))
             (fmm_db fmm) of
        (Some e, d) \<Rightarrow> (Some e, fmm\<lparr>fmm_db := d\<rparr>)
      | (None, d) \<Rightarrow> (None, \<lparr>fmm_m = AList.delete sourcePath (fmm_m fmm), fmm_db = d\<rparr>))"

text \<open>
  \<^verbatim>\<open>Range\<close> visits the keys present when it starts, each with its current value,
  skips a key deleted meanwhile, and stops when the callback returns \<^verbatim>\<open>false\<close>.
  The callback of \<^verbatim>\<open>sync\<close> drops the error of \<^verbatim>\<open>syncFile\<close>.
\<close>

fun fmm_sync_Range ::
  "('a, 'b) gob \<Rightarrow> string list \<Rightarrow> 'b fileMetadataMap \<Rightarrow> 'b fileMetadataMap" where
  "fmm_sync_Range g [] fmm = fmm"
| "fmm_sync_Range g (k # ks) fmm =
     (case map_of (fmm_m fmm) k of
        None \<Rightarrow> fmm_sync_Range g ks fmm
      | Some v \<Rightarrow>
          (case fmm_syncFile g k fmm of
             (Some e, fmm') \<Rightarrow> fmm'
           | (None, fmm') \<Rightarrow> fmm_sync_Range g ks fmm'))"

definition fmm_sync :: "('a, 'b) gob \<Rightarrow> 'b fileMetadataMap \<Rightarrow> error option \<times> 'b fileMetadataMap" where
  "fmm_sync g fmm =
     (let fmm' = fmm_sync_Range g (map fst (fmm_m fmm)) fmm
      in case db_Sync (fmm_db fmm') of (r, d) \<Rightarrow> (r, fmm'\<lparr>fmm_db := d\<rparr>))"

definition fmm_GetSlice :: "'b fileMetadataMap \<Rightarrow> error + FileMetadata list" where
  "fmm_GetSlice fmm =
     (let files = map snd (fmm_m fmm)
      in if length files = 0 then Inl ErrNoFilesFound else Inr files)"

text \<open>
  \<^verbatim>\<open>UpdateStatus\<close>; \<open>now\<close> is the value \<^verbatim>\<open>time.Now()\<close> returns in this call.
  \<open>assign_status\<close> is the block of assignments to \<^verbatim>\<open>meta\<close> between the lookup and
  the store.
\<close>

definition assign_status ::
  "time \<Rightarrow> TransferStatus \<Rightarrow> int \<Rightarrow> string option \<Rightarrow> FileMetadata \<Rightarrow> FileMetadata" where
  "assign_status now status bytesTransferred err meta =
     (let meta1 = meta\<lparr>Status := status, BytesTransferred := bytesTransferred\<rparr>;
          meta2 = (case err of None \<Rightarrow> meta1 | Some msg \<Rightarrow> meta1\<lparr>ErrorMsg := msg\<rparr>)
      in if status = StatusInProgress then meta2\<lparr>TimeStart := now\<rparr>
         else if status = StatusCompleted \<or> status = StatusFailed then meta2\<lparr>TimeEnd := now\<rparr>
         else meta2)"

definition fmm_UpdateStatus ::
  "('a, 'b) gob \<Rightarrow> time \<Rightarrow> string \<Rightarrow> TransferStatus \<Rightarrow> int \<Rightarrow> string option \<Rightarrow>
   'b fileMetadataMap \<Rightarrow> error option \<times> 'b fileMetadataMap" where
  "fmm_UpdateStatus g now sourcePath status bytesTransferred err fmm =
     (case fmm_Load sourcePath fmm of
        (meta, False) \<Rightarrow> (Some (ErrKeyNotFound sourcePath), fmm)
      | (meta, True) \<Rightarrow>
          fmm_StoreOrUpdate g (assign_status now status bytesTransferred err meta) fmm)"

definition fmm_Start ::
  "('a, 'b) gob \<Rightarrow> time \<Rightarrow> string \<Rightarrow> 'b fileMetadataMap \<Rightarrow> error option \<times> 'b fileMetadataMap" where
  "fmm_Start g now sourcePath fmm = fmm_UpdateStatus g now sourcePath StatusInProgress 0 None fmm"

definition fmm_SetError ::
  "('a, 'b) gob \<Rightarrow> time \<Rightarrow> string \<Rightarrow> string option \<Rightarrow> 'b fileMetadataMap \<Rightarrow>
   error option \<times> 'b fileMetadataMap" where
  "fmm_SetError g now sourcePath err fmm = fmm_UpdateStatus g now sourcePath StatusFailed 0 err fmm"

definition fmm_SetSuccess ::
  "('a, 'b) gob \<Rightarrow> time \<Rightarrow> string \<Rightarrow> int \<Rightarrow> 'b fileMetadataMap \<Rightarrow>
   error option \<times> 'b fileMetadataMap" where
  "fmm_SetSuccess g now sourcePath bytesTransferred fmm =
     fmm_UpdateStatus g now sourcePath StatusCompleted bytesTransferred None fmm"

text \<open>
  \<^verbatim>\<open>Operate\<close>. The transfer function is the caller's closure: it runs between the two
  status updates of a record and can itself call the registry, so it takes the registry
  and returns it together with its byte count and error.
  \<open>clock k s\<close> is what \<^verbatim>\<open>time.Now()\<close> returns in the call of
  \<^verbatim>\<open>UpdateStatus\<close> that sets the record of \<open>k\<close> to the status \<open>s\<close>; one
  traversal makes at most one such call for each \<open>k\<close> and \<open>s\<close>.
\<close>

type_synonym 'b Transfer =
  "string \<Rightarrow> string \<Rightarrow> 'b fileMetadataMap \<Rightarrow> (int \<times> string option) \<times> 'b fileMetadataMap"

definition Operate_visit ::
  "('a, 'b) gob \<Rightarrow> (string \<Rightarrow> TransferStatus \<Rightarrow> time) \<Rightarrow> 'b Transfer \<Rightarrow> FileMetadata \<Rightarrow>
   'b fileMetadataMap \<Rightarrow> error option \<times> 'b fileMetadataMap" where
  "Operate_visit g clock transfer meta fmm =
     (case fmm_UpdateStatus g (clock (SourcePath meta) StatusInProgress) (SourcePath meta)
             StatusInProgress 0 None fmm of
        (Some e, fmm1) \<Rightarrow> (Some e, fmm1)
      | (None, fmm1) \<Rightarrow>
          (case transfer (SourcePath meta) (TargetPath meta) fmm1 of
             ((nb, Some err), fmm2) \<Rightarrow>
               fmm_UpdateStatus g (clock (SourcePath meta) StatusFailed) (SourcePath meta)
                 StatusFailed nb (Some err) fmm2
           | ((nb, None), fmm2) \<Rightarrow>
               fmm_UpdateStatus g (clock (SourcePath meta) StatusCompleted) (SourcePath meta)
                 StatusCompleted nb None fmm2))"

fun Operate_Range ::
  "('a, 'b) gob \<Rightarrow> (string \<Rightarrow> TransferStatus \<Rightarrow> time) \<Rightarrow> 'b Transfer \<Rightarrow> string list \<Rightarrow>
   'b fileMetadataMap \<Rightarrow> error option \<times> 'b fileMetadataMap" where
  "Operate_Range g clock transfer [] fmm = (None, fmm)"
| "Operate_Range g clock transfer (k # ks) fmm =
     (case map_of (fmm_m fmm) k of
        None \<Rightarrow> Operate_Range g clock transfer ks fmm
      | Some meta \<Rightarrow>
          (case Operate_visit g clock transfer meta fmm of
             (Some e, fmm') \<Rightarrow> (Some e, fmm')
           | (None, fmm') \<Rightarrow> Operate_Range g clock transfer ks fmm'))"

definition fmm_Operate ::
  "('a, 'b) gob \<Rightarrow> (string \<Rightarrow> TransferStatus \<Rightarrow> time) \<Rightarrow> 'b Transfer \<Rightarrow> 'b fileMetadataMap \<Rightarrow>
   (error + FileMetadata list) \<times> 'b fileMetadataMap" where
  "fmm_Operate g clock transfer fmm =
     (case Operate_Range g clock transfer (map fst (fmm_m fmm)) fmm of
        (Some errGeneral, fmm') \<Rightarrow> (Inl errGeneral, fmm')
      | (None, fmm') \<Rightarrow>
          (case fmm_sync g fmm' of
             (Some e, fmm'') \<Rightarrow> (Inl e, fmm'')
           | (None, fmm'') \<Rightarrow> (fmm_GetSlice fmm'', fmm'')))"

section \<open>The attribute registry (\<^verbatim>\<open>attributes\<close>)\<close>

record ('a, 'b) attributes =
  at_m :: "(string \<times> 'a) list"
  at_db :: "'b DB"

fun at_loadAll_ForEach ::
  "('a, 'b) gob \<Rightarrow> 'b bucket \<Rightarrow> ('a, 'b) attributes \<Rightarrow> error option \<times> ('a, 'b) attributes" where
  "at_loadAll_ForEach g [] at = (None, at)"
| "at_loadAll_ForEach g ((k, v) # kvs) at =
     (case decAttr g v of
        None \<Rightarrow> (Some ErrGob, at)
      | Some data \<Rightarrow> at_loadAll_ForEach g kvs (at\<lparr>at_m := AList.update k data (at_m at)\<rparr>))"

definition at_loadAll ::
  "('a, 'b) gob \<Rightarrow> 'b root \<Rightarrow> ('a, 'b) attributes \<Rightarrow> error option \<times> ('a, 'b) attributes" where
  "at_loadAll g tx at =
     (case tx_Bucket additionalDataBucket tx of
        None \<Rightarrow> (Some ErrAttBucketNotFound, at)
      | Some b \<Rightarrow> at_loadAll_ForEach g b at)"

definition at_StoreOrUpdate ::
  "('a, 'b) gob \<Rightarrow> string \<Rightarrow> 'a \<Rightarrow> ('a, 'b) attributes \<Rightarrow> error option \<times> ('a, 'b) attributes" where
  "at_StoreOrUpdate g key data at =
     (case encAttr g data of
        None \<Rightarrow> (Some ErrGob, at)
      | Some buf \<Rightarrow>
          (case db_Update
                  (\<lambda>tx. case tx_Bucket additionalDataBucket tx of
                           None \<Rightarrow> Inl ErrAttBucketNotFound
                         | Some b \<Rightarrow>
                             (case bucket_Put key buf b of
                                Inl e \<Rightarrow> Inl e
                              | Inr b' \<Rightarrow> Inr (AList.update additionalDataBucket b' tx)))
                  (at_db at) of
             (Some e, d) \<Rightarrow> (Some e, at\<lparr>at_db := d\<rparr>)
           | (None, d) \<Rightarrow> (None, \<lparr>at_m = AList.update key data (at_m at), at_db = d\<rparr>)))"

definition at_syncAttribute ::
  "('a, 'b) gob \<Rightarrow> string \<Rightarrow> ('a, 'b) attributes \<Rightarrow> error option \<times> ('a, 'b) attributes" where
  "at_syncAttribute g key at =
     (case map_of (at_m at) key of
        None \<Rightarrow> (Some (ErrKeyNotFound key), at)
      | Some att \<Rightarrow> at_StoreOrUpdate g key att at)"

fun at_sync_Range ::
  "('a, 'b) gob \<Rightarrow> string list \<Rightarrow> ('a, 'b) attributes \<Rightarrow> ('a, 'b) attributes" where
  "at_sync_Range g [] at = at"
| "at_sync_Range g (k # ks) at =
     (case map_of (at_m at) k of
        None \<Rightarrow> at_sync_Range g ks at
      | Some v \<Rightarrow>
          (case at_syncAttribute g k at of
             (Some e, at') \<Rightarrow> at'
           | (None, at') \<Rightarrow> at_sync_Range g ks at'))"

definition at_sync :: "('a, 'b) gob \<Rightarrow> ('a, 'b) attributes \<Rightarrow> error option \<times> ('a, 'b) attributes" where
  "at_sync g at =
     (let at' = at_sync_Range g (map fst (at_m at)) at
      in case db_Sync (at_db at') of (r, d) \<Rightarrow> (r, at'\<lparr>at_db := d\<rparr>))"

definition at_GetSlice :: "('a, 'b) attributes \<Rightarrow> error + 'a list" where
  "at_GetSlice at = Inr (map snd (at_m at))"

text \<open>\<^verbatim>\<open>Load\<close> returns \<^verbatim>\<open>(value, true)\<close> as \<open>Some value\<close> and \<^verbatim>\<open>(nil, false)\<close> as \<open>None\<close>.\<close>

definition at_Load :: "string \<Rightarrow> ('a, 'b) attributes \<Rightarrow> 'a option" where
  "at_Load key at = map_of (at_m at) key"

definition at_Delete :: "string \<Rightarrow> ('a, 'b) attributes \<Rightarrow> error option \<times> ('a, 'b) attributes" where
  "at_Delete key at =
     (case db_Update
             (\<lambda>tx. case tx_Bucket additionalDataBucket tx of
                      None \<Rightarrow> Inl ErrAttBucketNotFound
                    | Some b \<Rightarrow> Inr (AList.update additionalDataBucket (bucket_Delete key b) tx))
             (at_db at) of
        (Some e, d) \<Rightarrow> (Some e, at\<lparr>at_db := d\<rparr>)
      | (None, d) \<Rightarrow> (None, \<lparr>at_m = AList.delete key (at_m at), at_db = d\<rparr>))"

definition at_Exists :: "string \<Rightarrow> ('a, 'b) attributes \<Rightarrow> bool" where
  "at_Exists key at = (map_of (at_m at) key \<noteq> None)"

section \<open>The transfer manager\<close>

text \<open>
  Both registries hold the manager's own \<^verbatim>\<open>*bolt.DB\<close>. The manager therefore keeps
  the two maps and the one handle; a registry method runs on the registry made of its map
  and that handle (\<open>tm_Files\<close>, \<open>tm_Attributes\<close>) and its result is written back
  (\<open>on_Files\<close>, \<open>on_Attributes\<close>). The lock file's path is fixed for one program, so
  the file system is the content of that one file, \<open>None\<close> when it does not exist.
\<close>

record ('a, 'b) TransferManager =
  serverInfo :: "ServerInfo option"
  preexisting :: bool
  Files :: "(string \<times> FileMetadata) list"
  Attributes :: "(string \<times> 'a) list"
  db :: "'b DB"

definition tm_Files :: "('a, 'b) TransferManager \<Rightarrow> 'b fileMetadataMap" where
  "tm_Files tm = \<lparr>fmm_m = Files tm, fmm_db = db tm\<rparr>"

definition tm_Attributes :: "('a, 'b) TransferManager \<Rightarrow> ('a, 'b) attributes" where
  "tm_Attributes tm = \<lparr>at_m = Attributes tm, at_db = db tm\<rparr>"

definition on_Files ::
  "('b fileMetadataMap \<Rightarrow> 'r \<times> 'b fileMetadataMap) \<Rightarrow> ('a, 'b) TransferManager \<Rightarrow>
   'r \<times> ('a, 'b) TransferManager" where
  "on_Files f tm =
     (case f (tm_Files tm) of (r, fmm) \<Rightarrow> (r, tm\<lparr>Files := fmm_m fmm, db := fmm_db fmm\<rparr>))"

definition on_Attributes ::
  "(('a, 'b) attributes \<Rightarrow> 'r \<times> ('a, 'b) attributes) \<Rightarrow> ('a, 'b) TransferManager \<Rightarrow>
   'r \<times> ('a, 'b) TransferManager" where
  "on_Attributes f tm =
     (case f (tm_Attributes tm) of (r, at) \<Rightarrow> (r, tm\<lparr>Attributes := at_m at, db := at_db at\<rparr>))"

definition loadServerInfo ::
  "('a, 'b) gob \<Rightarrow> 'b root \<Rightarrow> ('a, 'b) TransferManager \<Rightarrow> error option \<times> ('a, 'b) TransferManager" where
  "loadServerInfo g tx tm =
     (case tx_Bucket serverBucket tx of
        None \<Rightarrow> (None, tm)
      | Some b \<Rightarrow>
          (case map_of b serverInfoKey of
             None \<Rightarrow> (None, tm)
           | Some v \<Rightarrow>
               (case decInfo g v of
                  None \<Rightarrow> (Some ErrGob, tm)
                | Some si \<Rightarrow> (None, tm\<lparr>serverInfo := Some si\<rparr>))))"

definition loadExistingData ::
  "('a, 'b) gob \<Rightarrow> ('a, 'b) TransferManager \<Rightarrow> error option \<times> ('a, 'b) TransferManager" where
  "loadExistingData g tm =
     (if \<not> opened (db tm) then (Some ErrDatabaseNotOpen, tm)
      else let tx = buckets (db tm)
           in case on_Files (fmm_loadAll g tx) tm of
                (Some e, tm1) \<Rightarrow> (Some e, tm1)
              | (None, tm1) \<Rightarrow>
                  (case on_Attributes (at_loadAll g tx) tm1 of
                     (Some e, tm2) \<Rightarrow> (Some e, tm2)
                   | (None, tm2) \<Rightarrow>
                       (case loadServerInfo g tx tm2 of
                          (Some e, tm3) \<Rightarrow> (Some e, tm3)
                        | (None, tm3) \<Rightarrow>
                            (case db_Sync (db tm3) of (r, d) \<Rightarrow> (r, tm3\<lparr>db := d\<rparr>)))))"

definition init_buckets :: "'b root \<Rightarrow> error + 'b root" where
  "init_buckets tx =
     (case tx_CreateBucketIfNotExists filesBucket tx of
        Inl e \<Rightarrow> Inl e
      | Inr (b1, tx1) \<Rightarrow>
          (case tx_CreateBucketIfNotExists serverBucket tx1 of
             Inl e \<Rightarrow> Inl e
           | Inr (b2, tx2) \<Rightarrow>
               (case tx_CreateBucketIfNotExists additionalDataBucket tx2 of
                  Inl e \<Rightarrow> Inl e
                | Inr (b3, tx3) \<Rightarrow> Inr tx3)))"

text \<open>
  \<^verbatim>\<open>NewTransferManager\<close>, from the I/O outcomes to come and the lock file as found.
  \<^verbatim>\<open>setupSignalHandling\<close> always returns \<^verbatim>\<open>nil\<close> and touches none of this state.
\<close>

definition NewTransferManager ::
  "('a, 'b) gob \<Rightarrow> bool list \<Rightarrow> 'b root option \<Rightarrow> error + ('a, 'b) TransferManager" where
  "NewTransferManager g fl lockfile =
     (let pre = (lockfile \<noteq> None)
      in case bolt_Open fl lockfile of
           Inl e \<Rightarrow> Inl e
         | Inr d \<Rightarrow>
             (case db_Update init_buckets d of
                (Some e, d1) \<Rightarrow> Inl e
              | (None, d1) \<Rightarrow>
                  (let tm = \<lparr>serverInfo = None, preexisting = pre, Files = [],
                             Attributes = [], db = d1\<rparr>
                   in if preexisting tm
                      then (case loadExistingData g tm of
                              (Some e, tm') \<Rightarrow> Inl e
                            | (None, tm') \<Rightarrow> Inr tm')
                      else Inr tm)))"

definition IsPreexisting :: "('a, 'b) TransferManager \<Rightarrow> bool" where
  "IsPreexisting tm = preexisting tm"

text \<open>The lock file a manager leaves on disk as long as \<^verbatim>\<open>Finish\<close> has not removed it.\<close>

definition lockFile :: "('a, 'b) TransferManager \<Rightarrow> 'b root option" where
  "lockFile tm = Some (buckets (db tm))"

definition Close :: "('a, 'b) TransferManager \<Rightarrow> error option \<times> ('a, 'b) TransferManager" where
  "Close tm =
     (case db_Sync (db tm) of
        (Some e, d) \<Rightarrow> (Some (ErrWrap ''failed to sync database'' e), tm\<lparr>db := d\<rparr>)
      | (None, d) \<Rightarrow>
          (case db_Close d of
             (Some e, d') \<Rightarrow> (Some (ErrWrap ''failed to close database'' e), tm\<lparr>db := d'\<rparr>)
           | (None, d') \<Rightarrow> (None, tm\<lparr>db := d'\<rparr>)))"

text \<open>\<^verbatim>\<open>Finish\<close> also returns the lock file as it is left on disk.\<close>

definition Finish ::
  "('a, 'b) TransferManager \<Rightarrow> error option \<times> ('a, 'b) TransferManager \<times> 'b root option" where
  "Finish tm =
     (case Close tm of
        (Some e, tm') \<Rightarrow> (Some e, tm', lockFile tm')
      | (None, tm') \<Rightarrow>
          (case io_fault (db tm') of
             (True, d) \<Rightarrow>
               (Some (ErrWrap ''failed to remove lock file'' ErrIO), tm'\<lparr>db := d\<rparr>,
                lockFile tm')
           | (False, d) \<Rightarrow> (None, tm'\<lparr>db := d\<rparr>, None)))"

definition validate :: "net \<Rightarrow> ServerInfo \<Rightarrow> error option" where
  "validate nt si =
     (case url_Parse nt (Address si) of
        Some msg \<Rightarrow> Some (ErrInvalidAddressFormat msg)
      | None \<Rightarrow>
          (case net_ResolveIPAddr nt (Address si) of
             Some msg \<Rightarrow> Some (ErrInvalidAddressFormat msg)
           | None \<Rightarrow>
               (if Port si < 0 \<or> Port si > 65535 then Some (ErrInvalidPort (Port si))
                else if User si = [] then Some ErrEmptyUser
                else None)))"

definition GetServerInfo :: "('a, 'b) TransferManager \<Rightarrow> error + ServerInfo" where
  "GetServerInfo tm =
     (case serverInfo tm of None \<Rightarrow> Inl ErrServerInfoNotSet | Some si \<Rightarrow> Inr si)"

definition StoreOrUpdateServerInfo ::
  "('a, 'b) gob \<Rightarrow> net \<Rightarrow> ServerInfo \<Rightarrow> ('a, 'b) TransferManager \<Rightarrow>
   error option \<times> ('a, 'b) TransferManager" where
  "StoreOrUpdateServerInfo g nt info tm =
     (case validate nt info of
        Some e \<Rightarrow> (Some e, tm)
      | None \<Rightarrow>
          (case db_Update
                  (\<lambda>tx. case tx_CreateBucketIfNotExists serverBucket tx of
                           Inl e \<Rightarrow> Inl e
                         | Inr (b, tx') \<Rightarrow>
                             (case encInfo g info of
                                None \<Rightarrow> Inl ErrGob
                              | Some buf \<Rightarrow>
                                  (case bucket_Put serverInfoKey buf b of
                                     Inl e \<Rightarrow> Inl e
                                   | Inr b' \<Rightarrow> Inr (AList.update serverBucket b' tx'))))
                  (db tm) of
             (Some e, d) \<Rightarrow> (Some e, tm\<lparr>db := d\<rparr>)
           | (None, d) \<Rightarrow> (None, tm\<lparr>serverInfo := Some info, db := d\<rparr>)))"

definition CreateServerInfo :: "net \<Rightarrow> string \<Rightarrow> int \<Rightarrow> string \<Rightarrow> error + ServerInfo" where
  "CreateServerInfo nt address port user =
     (let si = \<lparr>Address = address, Port = port, User = user\<rparr>
      in case validate nt si of Some e \<Rightarrow> Inl e | None \<Rightarrow> Inr si)"

text \<open>\<^verbatim>\<open>TransferManager.sync\<close>: both registries, then the store.\<close>

definition tm_sync :: "('a, 'b) gob \<Rightarrow> ('a, 'b) TransferManager \<Rightarrow> error option \<times> ('a, 'b) TransferManager" where
  "tm_sync g tm =
     (case on_Files (fmm_sync g) tm of
        (Some e, tm1) \<Rightarrow> (Some e, tm1)
      | (None, tm1) \<Rightarrow>
          (case on_Attributes (at_sync g) tm1 of
             (Some e, tm2) \<Rightarrow> (Some e, tm2)
           | (None, tm2) \<Rightarrow> (case db_Sync (db tm2) of (r, d) \<Rightarrow> (r, tm2\<lparr>db := d\<rparr>))))"

text \<open>Storing a list of records through the manager's transfer registry, one call each,
  stopping at the first call that fails.\<close>

fun store_records ::
  "('a, 'b) gob \<Rightarrow> FileMetadata list \<Rightarrow> ('a, 'b) TransferManager \<Rightarrow>
   error option \<times> ('a, 'b) TransferManager" where
  "store_records g [] tm = (None, tm)"
| "store_records g (r # rs) tm =
     (case on_Files (fmm_StoreOrUpdate g r) tm of
        (Some e, tm') \<Rightarrow> (Some e, tm')
      | (None, tm') \<Rightarrow> store_records g rs tm')"

section \<open>Concrete inputs\<close>

text \<open>A record, stores and registries on which the model is run below.\<close>

definition file_a :: FileMetadata where
  "file_a =
     \<lparr>SourcePath = ''/a/f.txt'', TargetPath = ''/b/f.txt'', Status = StatusNotStarted,
      BytesTransferred = 0, TimeStart = 0, TimeEnd = 0, ErrorMsg = []\<rparr>"

definition store_of :: "blob bucket \<Rightarrow> bool list \<Rightarrow> blob DB" where
  "store_of files fl =
     \<lparr>opened = True,
      buckets = [(''Files'', files), (''Server'', []), (''AdditionalData'', [])],
      faults = fl\<rparr>"

definition fmm_a :: "bool list \<Rightarrow> blob fileMetadataMap" where
  "fmm_a fl =
     \<lparr>fmm_m = [(''/a/f.txt'', file_a)],
      fmm_db = store_of [(''/a/f.txt'', FileBlob file_a)] fl\<rparr>"

definition at_a :: "bool list \<Rightarrow> (string, blob) attributes" where
  "at_a fl =
     \<lparr>at_m = [(''flag'', ''-v'')],
      at_db = \<lparr>opened = True,
               buckets = [(''Files'', []), (''Server'', []),
                          (''AdditionalData'', [(''flag'', AttrBlob ''-v'')])],
               faults = fl\<rparr>\<rparr>"

text \<open>A store in which no bucket has been created, and registries on it.\<close>

definition bare_store :: "bool list \<Rightarrow> blob DB" where
  "bare_store fl = \<lparr>opened = True, buckets = [], faults = fl\<rparr>"

definition fmm_bare :: "blob fileMetadataMap" where
  "fmm_bare = \<lparr>fmm_m = [(''/a/f.txt'', file_a)], fmm_db = bare_store []\<rparr>"

definition at_bare :: "(string, blob) attributes" where
  "at_bare = \<lparr>at_m = [(''flag'', ''-v'')], at_db = bare_store []\<rparr>"

definition at_empty :: "(string, blob) attributes" where
  "at_empty = \<lparr>at_m = [], at_db = store_of [] []\<rparr>"

definition fmm_empty :: "blob fileMetadataMap" where
  "fmm_empty = \<lparr>fmm_m = [], fmm_db = store_of [] []\<rparr>"

text \<open>A manager that holds connection parameters, in memory and in the store.\<close>

definition tm_a :: "(string, blob) TransferManager" where
  "tm_a =
     \<lparr>serverInfo = Some \<lparr>Address = ''localhost'', Port = 8080, User = ''admin''\<rparr>,
      preexisting = False, Files = [], Attributes = [],
      db = \<lparr>opened = True,
             buckets = [(''Files'', []),
                        (''Server'',
                         [(''Info'',
                           InfoBlob \<lparr>Address = ''localhost'', Port = 8080, User = ''admin''\<rparr>)]),
                        (''AdditionalData'', [])],
             faults = []\<rparr>\<rparr>"

section \<open>Sequences of status operations\<close>

text \<open>
  A caller's sequence of \<^verbatim>\<open>Start\<close>, \<^verbatim>\<open>SetError\<close> and \<^verbatim>\<open>SetSuccess\<close> calls, each
  with the time of the call; the caller goes on whether or not a call returns an error.
  \<open>keyed\<close> says that every entry of the in-memory map is filed under its record's
  source path, as \<^verbatim>\<open>StoreOrUpdate\<close> files it.
\<close>

datatype status_op = OpStart string | OpSetError string "string option" | OpSetSuccess string int

fun apply_status_op ::
  "('a, 'b) gob \<Rightarrow> time \<Rightarrow> status_op \<Rightarrow> 'b fileMetadataMap \<Rightarrow>
   error option \<times> 'b fileMetadataMap" where
  "apply_status_op g now (OpStart k) fmm = fmm_Start g now k fmm"
| "apply_status_op g now (OpSetError k err) fmm = fmm_SetError g now k err fmm"
| "apply_status_op g now (OpSetSuccess k n) fmm = fmm_SetSuccess g now k n fmm"

fun run_status_ops ::
  "('a, 'b) gob \<Rightarrow> (time \<times> status_op) list \<Rightarrow> 'b fileMetadataMap \<Rightarrow> 'b fileMetadataMap" where
  "run_status_ops g [] fmm = fmm"
| "run_status_ops g ((now, op) # ops) fmm =
     run_status_ops g ops (snd (apply_status_op g now op fmm))"

definition keyed :: "(string \<times> FileMetadata) list \<Rightarrow> bool" where
  "keyed m = list_all (\<lambda>(k, r). SourcePath r = k) m"

section \<open>Inputs for the traversal\<close>

text \<open>
  A registry of two records, the same registry once the first record has been started,
  the registry of the second record alone, a clock, and two transfer functions: one that
  leaves the registry alone and fails on the first record, and one that deletes the record
  it is called for and reports an error. \<open>operated\<close> is the record a visit without bookkeeping
  error leaves for a record \<open>r\<close> when the transfer function returned \<open>res\<close>.
\<close>

definition file_b :: FileMetadata where
  "file_b =
     \<lparr>SourcePath = ''/a/g.txt'', TargetPath = ''/b/g.txt'', Status = StatusNotStarted,
      BytesTransferred = 0, TimeStart = 0, TimeEnd = 0, ErrorMsg = []\<rparr>"

definition fmm_ab :: "bool list \<Rightarrow> blob fileMetadataMap" where
  "fmm_ab fl =
     \<lparr>fmm_m = [(''/a/f.txt'', file_a), (''/a/g.txt'', file_b)],
      fmm_db = store_of [(''/a/f.txt'', FileBlob file_a), (''/a/g.txt'', FileBlob file_b)] fl\<rparr>"

definition result_a :: "string \<Rightarrow> string \<Rightarrow> int \<times> string option" where
  "result_a src tgt = (if src = ''/a/f.txt'' then (10, Some ''refused'') else (100, None))"

definition transfer_a :: "blob Transfer" where
  "transfer_a src tgt fmm = (result_a src tgt, fmm)"

definition transfer_del :: "blob Transfer" where
  "transfer_del src tgt fmm = ((0, Some ''gone''), snd (fmm_Delete src fmm))"

definition file_a_started :: FileMetadata where
  "file_a_started =
     \<lparr>SourcePath = ''/a/f.txt'', TargetPath = ''/b/f.txt'', Status = StatusInProgress,
      BytesTransferred = 0, TimeStart = 1, TimeEnd = 0, ErrorMsg = []\<rparr>"

definition fmm_started :: "bool list \<Rightarrow> blob fileMetadataMap" where
  "fmm_started fl =
     \<lparr>fmm_m = [(''/a/f.txt'', file_a_started), (''/a/g.txt'', file_b)],
      fmm_db = store_of [(''/a/f.txt'', FileBlob file_a_started),
                         (''/a/g.txt'', FileBlob file_b)] fl\<rparr>"

definition fmm_b :: "blob fileMetadataMap" where
  "fmm_b =
     \<lparr>fmm_m = [(''/a/g.txt'', file_b)],
      fmm_db = store_of [(''/a/g.txt'', FileBlob file_b)] []\<rparr>"

definition clock_a :: "string \<Rightarrow> TransferStatus \<Rightarrow> time" where
  "clock_a k s = (if s = StatusInProgress then 1 else 2)"

definition operated ::
  "(string \<Rightarrow> TransferStatus \<Rightarrow> time) \<Rightarrow> int \<times> string option \<Rightarrow> FileMetadata \<Rightarrow> FileMetadata" where
  "operated clock res r =
     (let k = SourcePath r;
          r1 = assign_status (clock k StatusInProgress) StatusInProgress 0 None r
      in case res of
           (nb, Some err) \<Rightarrow> assign_status (clock k StatusFailed) StatusFailed nb (Some err) r1
         | (nb, None) \<Rightarrow> assign_status (clock k StatusCompleted) StatusCompleted nb None r1)"

section \<open>Managers for the recovery round trip\<close>

text \<open>
  The manager built on a path without a lock file, that manager closed, the manager built
  on the lock file it leaves, and the first manager after two records were stored and
  after it was closed. \<open>fresh_layout b\<close> is the content of a lock file that holds the
  three buckets in the order of their creation, the transfer records' bucket being \<open>b\<close>
  and the other two empty.
\<close>

definition tm_fresh :: "(string, blob) TransferManager" where
  "tm_fresh =
     \<lparr>serverInfo = None, preexisting = False, Files = [], Attributes = [],
      db = store_of [] []\<rparr>"

definition tm_closed :: "(string, blob) TransferManager" where
  "tm_closed = tm_fresh\<lparr>db := (store_of [] [])\<lparr>opened := False\<rparr>\<rparr>"

definition tm_reopened :: "(string, blob) TransferManager" where
  "tm_reopened = tm_fresh\<lparr>preexisting := True\<rparr>"

definition tm_stored :: "(string, blob) TransferManager" where
  "tm_stored =
     \<lparr>serverInfo = None, preexisting = False,
      Files = [(''/a/f.txt'', file_a), (''/a/g.txt'', file_b)], Attributes = [],
      db = store_of [(''/a/f.txt'', FileBlob file_a), (''/a/g.txt'', FileBlob file_b)] []\<rparr>"

definition tm_stored_closed :: "(string, blob) TransferManager" where
  "tm_stored_closed = tm_stored\<lparr>db := (db tm_stored)\<lparr>opened := False\<rparr>\<rparr>"

definition fresh_layout :: "'b bucket \<Rightarrow> 'b root" where
  "fresh_layout b = [(filesBucket, b), (serverBucket, []), (additionalDataBucket, [])]"

section \<open>Basic facts\<close>

lemmas names = filesBucket_def serverBucket_def additionalDataBucket_def serverInfoKey_def

lemmas store_defs = db_Update_def db_Sync_def db_Close_def io_fault_def tx_Bucket_def
  tx_CreateBucketIfNotExists_def bucket_Put_def bucket_Delete_def

lemmas sample_defs = file_a_def store_of_def fmm_a_def at_a_def tagged_gob_def local_net_def
  bare_store_def fmm_bare_def at_bare_def at_empty_def fmm_empty_def tm_a_def

lemmas operate_inputs = file_b_def fmm_ab_def result_a_def transfer_a_def transfer_del_def
  clock_a_def file_a_started_def fmm_started_def fmm_b_def

lemmas ctor_defs = NewTransferManager_def bolt_Open_def init_buckets_def loadExistingData_def
  on_Files_def on_Attributes_def tm_Files_def tm_Attributes_def fmm_loadAll_def at_loadAll_def
  loadServerInfo_def Close_def lockFile_def IsPreexisting_def fmm_GetSlice_def Let_def

lemmas manager_inputs = tm_fresh_def tm_closed_def tm_reopened_def tm_stored_def
  tm_stored_closed_def file_b_def

lemma assign_status_fields [simp]:
  "SourcePath (assign_status now st n err r) = SourcePath r"
  "TargetPath (assign_status now st n err r) = TargetPath r"
  "Status (assign_status now st n err r) = st"
  "BytesTransferred (assign_status now st n err r) = n"
  "ErrorMsg (assign_status now st n err r) = (case err of None \<Rightarrow> ErrorMsg r | Some msg \<Rightarrow> msg)"
  "TimeStart (assign_status now st n err r) = (if st = StatusInProgress then now else TimeStart r)"
  "TimeEnd (assign_status now st n err r) =
     (if st = StatusCompleted \<or> st = StatusFailed then now else TimeEnd r)"
  by (auto simp: assign_status_def Let_def split: option.splits)

lemma fmm_StoreOrUpdate_m:
  "fmm_m (snd (fmm_StoreOrUpdate g r fmm)) =
     (if fst (fmm_StoreOrUpdate g r fmm) = None then AList.update (SourcePath r) r (fmm_m fmm)
      else fmm_m fmm)"
  by (auto simp: fmm_StoreOrUpdate_def split: prod.splits option.splits)

lemma fmm_UpdateStatus_m:
  "fmm_m (snd (fmm_UpdateStatus g now k st n err fmm)) =
     (case map_of (fmm_m fmm) k of
        None \<Rightarrow> fmm_m fmm
      | Some r \<Rightarrow>
          if fst (fmm_UpdateStatus g now k st n err fmm) = None
          then AList.update (SourcePath r) (assign_status now st n err r) (fmm_m fmm)
          else fmm_m fmm)"
  by (simp add: fmm_UpdateStatus_def fmm_Load_def fmm_StoreOrUpdate_m split: option.splits)

lemma fmm_UpdateStatus_absent:
  "map_of (fmm_m fmm) k = None \<Longrightarrow>
     fmm_UpdateStatus g now k st n err fmm = (Some (ErrKeyNotFound k), fmm)"
  by (simp add: fmm_UpdateStatus_def fmm_Load_def)

text \<open>
  Every entry of a registry that was built by \<^verbatim>\<open>StoreOrUpdate\<close>, \<^verbatim>\<open>Delete\<close> and the
  status operations is filed under its record's source path.
\<close>

lemma keyed_map_of: "keyed m \<Longrightarrow> map_of m k = Some r \<Longrightarrow> SourcePath r = k"
  by (auto simp: keyed_def list_all_iff dest: map_of_SomeD)

lemma keyed_update: "keyed m \<Longrightarrow> SourcePath r = k \<Longrightarrow> keyed (AList.update k r m)"
  by (induction m) (auto simp: keyed_def)

lemma keyed_delete: "keyed m \<Longrightarrow> keyed (AList.delete k m)"
  by (induction m) (auto simp: keyed_def)

lemma keyed_UpdateStatus:
  "keyed (fmm_m fmm) \<Longrightarrow> keyed (fmm_m (snd (fmm_UpdateStatus g now k st n err fmm)))"
  by (auto simp: fmm_UpdateStatus_m keyed_update split: option.splits)

lemma keyed_StoreOrUpdate:
  "keyed (fmm_m fmm) \<Longrightarrow> keyed (fmm_m (snd (fmm_StoreOrUpdate g r fmm)))"
  by (simp add: fmm_StoreOrUpdate_m keyed_update)

lemma keyed_Delete: "keyed (fmm_m fmm) \<Longrightarrow> keyed (fmm_m (snd (fmm_Delete k fmm)))"
  by (auto simp: fmm_Delete_def keyed_delete split: prod.splits option.splits)

lemmas status_defs = fmm_Start_def fmm_SetSuccess_def fmm_SetError_def fmm_UpdateStatus_def
  fmm_Load_def fmm_StoreOrUpdate_def assign_status_def Let_def

section \<open>Store and load\<close>

text \<open>
  C8. Store/load round trip. When \<^verbatim>\<open>StoreOrUpdate\<close> of the transfer registry returns no
  error for a record \<open>r\<close>, \<^verbatim>\<open>Load\<close> of \<open>r\<close>'s source path on the resulting registry
  returns \<open>(r, true)\<close>; when \<^verbatim>\<open>StoreOrUpdate\<close> of the attribute registry returns no
  error for a key \<open>k\<close> and a value \<open>v\<close>, \<^verbatim>\<open>Load\<close> of \<open>k\<close> returns \<open>v\<close> and found.
\<close>

theorem store_load_roundtrip:
  "(fst (fmm_StoreOrUpdate g r fmm) = None \<longrightarrow>
      fmm_Load (SourcePath r) (snd (fmm_StoreOrUpdate g r fmm)) = (r, True)) \<and>
   (fst (at_StoreOrUpdate g k v at) = None \<longrightarrow>
      at_Load k (snd (at_StoreOrUpdate g k v at)) = Some v)"
  by (auto simp: fmm_StoreOrUpdate_def at_StoreOrUpdate_def fmm_Load_def at_Load_def update_conv'
      split: prod.splits option.splits)

theorem store_load_roundtrip_witness:
  "fst (fmm_StoreOrUpdate tagged_gob file_a (fmm_a [])) = None \<and>
   fmm_Load (SourcePath file_a) (snd (fmm_StoreOrUpdate tagged_gob file_a (fmm_a []))) =
     (file_a, True) \<and>
   fst (at_StoreOrUpdate tagged_gob ''flag'' ''-q'' (at_a [])) = None \<and>
   at_Load ''flag'' (snd (at_StoreOrUpdate tagged_gob ''flag'' ''-q'' (at_a []))) = Some ''-q''"
proof -
  have f: "fst (fmm_StoreOrUpdate tagged_gob file_a (fmm_a [])) = None"
    by (simp add: fmm_StoreOrUpdate_def store_defs names sample_defs)
  have a: "fst (at_StoreOrUpdate tagged_gob ''flag'' ''-q'' (at_a [])) = None"
    by (simp add: at_StoreOrUpdate_def store_defs names sample_defs)
  from f a store_load_roundtrip [of tagged_gob file_a "fmm_a []" "''flag''" "''-q''" "at_a []"]
  show ?thesis by blast
qed

section \<open>Status transitions\<close>

text \<open>
  C7. Status-transition law. Let \<open>k\<close> be a key of the transfer registry whose record has
  \<open>k\<close> as its source path, as every record stored through the registry has. If \<^verbatim>\<open>Start(k)\<close> returns no error, the record then loaded
  for \<open>k\<close> is InProgress and its start time is the time of the call. If
  \<^verbatim>\<open>SetSuccess(k, n)\<close> returns no error, the record is Completed, its byte count is
  \<open>n\<close> and its end time is the time of the call. If \<^verbatim>\<open>SetError(k, e)\<close> with a non-nil
  \<open>e\<close> returns no error, the record is Failed, its error message is the text of \<open>e\<close>
  and its end time is the time of the call.
\<close>

theorem status_transition_law:
  assumes "map_of (fmm_m fmm) k = Some r" and "SourcePath r = k"
  shows "(fst (fmm_Start g now k fmm) = None \<longrightarrow>
            (\<exists>r'. fmm_Load k (snd (fmm_Start g now k fmm)) = (r', True) \<and>
                  Status r' = StatusInProgress \<and> TimeStart r' = now)) \<and>
         (fst (fmm_SetSuccess g now k n fmm) = None \<longrightarrow>
            (\<exists>r'. fmm_Load k (snd (fmm_SetSuccess g now k n fmm)) = (r', True) \<and>
                  Status r' = StatusCompleted \<and> BytesTransferred r' = n \<and> TimeEnd r' = now)) \<and>
         (fst (fmm_SetError g now k (Some msg) fmm) = None \<longrightarrow>
            (\<exists>r'. fmm_Load k (snd (fmm_SetError g now k (Some msg) fmm)) = (r', True) \<and>
                  Status r' = StatusFailed \<and> ErrorMsg r' = msg \<and> TimeEnd r' = now))"
  using assms
  by (simp add: fmm_Start_def fmm_SetSuccess_def fmm_SetError_def fmm_Load_def
      fmm_UpdateStatus_m update_conv')

theorem status_transition_law_witness:
  "map_of (fmm_m (fmm_a [])) ''/a/f.txt'' = Some file_a \<and> SourcePath file_a = ''/a/f.txt'' \<and>
   fst (fmm_Start tagged_gob 7 ''/a/f.txt'' (fmm_a [])) = None \<and>
   fst (fmm_SetSuccess tagged_gob 7 ''/a/f.txt'' 100 (fmm_a [])) = None \<and>
   fst (fmm_SetError tagged_gob 7 ''/a/f.txt'' (Some ''refused'') (fmm_a [])) = None \<and>
   (\<exists>r'. fmm_Load ''/a/f.txt'' (snd (fmm_Start tagged_gob 7 ''/a/f.txt'' (fmm_a []))) = (r', True) \<and>
         Status r' = StatusInProgress \<and> TimeStart r' = 7) \<and>
   (\<exists>r'. fmm_Load ''/a/f.txt'' (snd (fmm_SetSuccess tagged_gob 7 ''/a/f.txt'' 100 (fmm_a []))) =
           (r', True) \<and>
         Status r' = StatusCompleted \<and> BytesTransferred r' = 100 \<and> TimeEnd r' = 7) \<and>
   (\<exists>r'. fmm_Load ''/a/f.txt''
           (snd (fmm_SetError tagged_gob 7 ''/a/f.txt'' (Some ''refused'') (fmm_a []))) =
           (r', True) \<and>
         Status r' = StatusFailed \<and> ErrorMsg r' = ''refused'' \<and> TimeEnd r' = 7)"
proof -
  have h1: "map_of (fmm_m (fmm_a [])) ''/a/f.txt'' = Some file_a"
    by (simp add: sample_defs)
  have h2: "SourcePath file_a = ''/a/f.txt''"
    by (simp add: sample_defs)
  have s1: "fst (fmm_Start tagged_gob 7 ''/a/f.txt'' (fmm_a [])) = None"
    by (simp add: status_defs store_defs names sample_defs)
  have s2: "fst (fmm_SetSuccess tagged_gob 7 ''/a/f.txt'' 100 (fmm_a [])) = None"
    by (simp add: status_defs store_defs names sample_defs)
  have s3: "fst (fmm_SetError tagged_gob 7 ''/a/f.txt'' (Some ''refused'') (fmm_a [])) = None"
    by (simp add: status_defs store_defs names sample_defs)
  from status_transition_law [OF h1 h2, of tagged_gob 7 100 "''refused''"] h1 h2 s1 s2 s3
  show ?thesis by blast
qed

section \<open>Snapshots\<close>

text \<open>
  C4 (as amended). \<^verbatim>\<open>GetSlice\<close> of the transfer registry fails with the
  no-files-found error when the in-memory map is empty and otherwise returns all in-memory
  records. \<^verbatim>\<open>GetSlice\<close> of the attribute registry never fails: it returns all
  in-memory values, the empty sequence when the map is empty.
\<close>

theorem getAll_by_registry:
  "fmm_GetSlice fmm =
     (if fmm_m fmm = [] then Inl ErrNoFilesFound else Inr (map snd (fmm_m fmm))) \<and>
   at_GetSlice at = Inr (map snd (at_m at))"
  by (simp add: fmm_GetSlice_def at_GetSlice_def)

theorem getAll_by_registry_witness:
  "fmm_GetSlice fmm_empty = Inl ErrNoFilesFound \<and>
   fmm_GetSlice (fmm_a []) = Inr [file_a] \<and>
   at_GetSlice (at_a []) = Inr [''-v'']"
  using getAll_by_registry [of fmm_empty "at_a []"] getAll_by_registry [of "fmm_a []" "at_a []"]
  by (simp add: fmm_empty_def fmm_a_def at_a_def)

text \<open>
  C4 as stated fails: on an attribute registry whose map is empty, \<^verbatim>\<open>GetSlice\<close>
  returns the empty snapshot and no error.
\<close>

theorem attributes_getAll_empty_succeeds:
  "at_m at_empty = [] \<and> at_GetSlice at_empty = Inr []"
  by (simp add: at_GetSlice_def at_empty_def)

section \<open>Deletion\<close>

lemma fmm_Delete_ok:
  assumes "fst (fmm_Delete k fmm) = None"
  shows "map_of (fmm_m (snd (fmm_Delete k fmm))) k = None"
    and "tx_Bucket filesBucket (buckets (fmm_db (snd (fmm_Delete k fmm)))) = Some b \<Longrightarrow>
         map_of b k = None"
  using assms
  by (auto simp: fmm_Delete_def store_defs update_conv' delete_conv' 
      split: prod.splits option.splits if_splits list.splits bool.splits)

lemma fmm_Delete_fail:
  assumes "fst (fmm_Delete k fmm) \<noteq> None"
  shows "fmm_m (snd (fmm_Delete k fmm)) = fmm_m fmm"
    and "buckets (fmm_db (snd (fmm_Delete k fmm))) = buckets (fmm_db fmm)"
  using assms
  by (auto simp: fmm_Delete_def store_defs
      split: prod.splits option.splits if_splits list.splits bool.splits)

lemma fmm_Delete_no_bucket:
  assumes "opened (fmm_db fmm)" and "tx_Bucket filesBucket (buckets (fmm_db fmm)) = None"
    and "\<not> fst (io_fault (fmm_db fmm))"
  shows "fst (fmm_Delete k fmm) = None"
    and "buckets (fmm_db (snd (fmm_Delete k fmm))) = buckets (fmm_db fmm)"
  using assms
  by (auto simp: fmm_Delete_def store_defs
      split: prod.splits option.splits if_splits list.splits bool.splits)

lemma at_Delete_ok:
  assumes "fst (at_Delete k at) = None"
  shows "map_of (at_m (snd (at_Delete k at))) k = None"
    and "tx_Bucket additionalDataBucket (buckets (at_db (snd (at_Delete k at)))) = Some b \<Longrightarrow>
         map_of b k = None"
  using assms
  by (auto simp: at_Delete_def store_defs update_conv' delete_conv' 
      split: prod.splits option.splits if_splits list.splits bool.splits)

lemma at_Delete_fail:
  assumes "fst (at_Delete k at) \<noteq> None"
  shows "at_m (snd (at_Delete k at)) = at_m at"
    and "buckets (at_db (snd (at_Delete k at))) = buckets (at_db at)"
  using assms
  by (auto simp: at_Delete_def store_defs
      split: prod.splits option.splits if_splits list.splits bool.splits)

lemma at_Delete_no_bucket:
  assumes "opened (at_db at)" and "tx_Bucket additionalDataBucket (buckets (at_db at)) = None"
  shows "at_Delete k at = (Some ErrAttBucketNotFound, at)"
  using assms
  by (simp add: at_Delete_def db_Update_def)

text \<open>
  C5 (as amended). In both registries \<^verbatim>\<open>Delete(k)\<close> removes \<open>k\<close> from the bucket
  first and from the in-memory map only when that succeeded: after a call without error
  \<open>k\<close> is in neither, after a call with an error the map and the store's content are
  as before. When the bucket is absent, the transfer registry's \<^verbatim>\<open>Delete\<close> returns
  no error (if the commit of its empty transaction does not fail) and leaves the store's
  content unchanged, whereas the attribute registry's \<^verbatim>\<open>Delete\<close> fails with the
  bucket-not-found error and changes nothing.
\<close>

theorem delete_durable_first:
  "(fst (fmm_Delete k fmm) = None \<longrightarrow>
      map_of (fmm_m (snd (fmm_Delete k fmm))) k = None \<and>
      (\<forall>b. tx_Bucket filesBucket (buckets (fmm_db (snd (fmm_Delete k fmm)))) = Some b \<longrightarrow>
           map_of b k = None)) \<and>
   (fst (fmm_Delete k fmm) \<noteq> None \<longrightarrow>
      fmm_m (snd (fmm_Delete k fmm)) = fmm_m fmm \<and>
      buckets (fmm_db (snd (fmm_Delete k fmm))) = buckets (fmm_db fmm)) \<and>
   (fst (at_Delete key at) = None \<longrightarrow>
      map_of (at_m (snd (at_Delete key at))) key = None \<and>
      (\<forall>b. tx_Bucket additionalDataBucket (buckets (at_db (snd (at_Delete key at)))) = Some b \<longrightarrow>
           map_of b key = None)) \<and>
   (fst (at_Delete key at) \<noteq> None \<longrightarrow>
      at_m (snd (at_Delete key at)) = at_m at \<and>
      buckets (at_db (snd (at_Delete key at))) = buckets (at_db at)) \<and>
   (opened (fmm_db fmm) \<and> tx_Bucket filesBucket (buckets (fmm_db fmm)) = None \<and>
    \<not> fst (io_fault (fmm_db fmm)) \<longrightarrow>
      fst (fmm_Delete k fmm) = None \<and>
      buckets (fmm_db (snd (fmm_Delete k fmm))) = buckets (fmm_db fmm)) \<and>
   (opened (at_db at) \<and> tx_Bucket additionalDataBucket (buckets (at_db at)) = None \<longrightarrow>
      at_Delete key at = (Some ErrAttBucketNotFound, at))"
  using fmm_Delete_ok [of k fmm] fmm_Delete_fail [of k fmm] fmm_Delete_no_bucket [of fmm k]
    at_Delete_ok [of key at] at_Delete_fail [of key at] at_Delete_no_bucket [of at key]
  by blast

theorem delete_durable_first_witness:
  "fst (fmm_Delete ''/a/f.txt'' (fmm_a [])) = None \<and>
   fst (at_Delete ''flag'' (at_a [])) = None \<and>
   tx_Bucket filesBucket (buckets (fmm_db (snd (fmm_Delete ''/a/f.txt'' (fmm_a []))))) = Some [] \<and>
   tx_Bucket additionalDataBucket (buckets (at_db (snd (at_Delete ''flag'' (at_a []))))) = Some [] \<and>
   map_of (fmm_m (snd (fmm_Delete ''/a/f.txt'' (fmm_a [])))) ''/a/f.txt'' = None \<and>
   map_of (at_m (snd (at_Delete ''flag'' (at_a [])))) ''flag'' = None \<and>
   fst (fmm_Delete ''/a/f.txt'' (fmm_a [True])) = Some ErrIO \<and>
   fst (at_Delete ''flag'' (at_a [True])) = Some ErrIO \<and>
   fmm_m (snd (fmm_Delete ''/a/f.txt'' (fmm_a [True]))) = fmm_m (fmm_a [True]) \<and>
   at_m (snd (at_Delete ''flag'' (at_a [True]))) = at_m (at_a [True]) \<and>
   opened (fmm_db fmm_bare) \<and> tx_Bucket filesBucket (buckets (fmm_db fmm_bare)) = None \<and>
   \<not> fst (io_fault (fmm_db fmm_bare)) \<and>
   opened (at_db at_bare) \<and> tx_Bucket additionalDataBucket (buckets (at_db at_bare)) = None \<and>
   fst (fmm_Delete ''/a/f.txt'' fmm_bare) = None \<and>
   buckets (fmm_db (snd (fmm_Delete ''/a/f.txt'' fmm_bare))) = buckets (fmm_db fmm_bare) \<and>
   at_Delete ''flag'' at_bare = (Some ErrAttBucketNotFound, at_bare)"
proof -
  have f1: "fst (fmm_Delete ''/a/f.txt'' (fmm_a [])) = None"
    by (simp add: fmm_Delete_def store_defs names sample_defs)
  have f2: "tx_Bucket filesBucket (buckets (fmm_db (snd (fmm_Delete ''/a/f.txt'' (fmm_a []))))) = Some []"
    by (simp add: fmm_Delete_def store_defs names sample_defs)
  have f3: "fst (fmm_Delete ''/a/f.txt'' (fmm_a [True])) = Some ErrIO"
    by (simp add: fmm_Delete_def store_defs names sample_defs)
  have a1: "fst (at_Delete ''flag'' (at_a [])) = None"
    by (simp add: at_Delete_def store_defs names sample_defs)
  have a2: "tx_Bucket additionalDataBucket (buckets (at_db (snd (at_Delete ''flag'' (at_a []))))) = Some []"
    by (simp add: at_Delete_def store_defs names sample_defs)
  have a3: "fst (at_Delete ''flag'' (at_a [True])) = Some ErrIO"
    by (simp add: at_Delete_def store_defs names sample_defs)
  have b1: "opened (fmm_db fmm_bare) \<and> tx_Bucket filesBucket (buckets (fmm_db fmm_bare)) = None \<and>
            \<not> fst (io_fault (fmm_db fmm_bare))"
    by (simp add: sample_defs store_defs)
  have b2: "opened (at_db at_bare) \<and> tx_Bucket additionalDataBucket (buckets (at_db at_bare)) = None"
    by (simp add: sample_defs store_defs)
  note t1 = delete_durable_first [of "''/a/f.txt''" "fmm_a []" "''flag''" "at_a []"]
  note t2 = delete_durable_first [of "''/a/f.txt''" "fmm_a [True]" "''flag''" "at_a [True]"]
  note t3 = delete_durable_first [of "''/a/f.txt''" fmm_bare "''flag''" at_bare]
  from f1 a1 t1 have ok: "map_of (fmm_m (snd (fmm_Delete ''/a/f.txt'' (fmm_a [])))) ''/a/f.txt'' = None"
     "map_of (at_m (snd (at_Delete ''flag'' (at_a [])))) ''flag'' = None"
    by blast+
  from f3 a3 t2
  have bad: "fmm_m (snd (fmm_Delete ''/a/f.txt'' (fmm_a [True]))) = fmm_m (fmm_a [True])"
    "at_m (snd (at_Delete ''flag'' (at_a [True]))) = at_m (at_a [True])"
    by auto
  from b1 b2 t3 have bare: "fst (fmm_Delete ''/a/f.txt'' fmm_bare) = None"
    "buckets (fmm_db (snd (fmm_Delete ''/a/f.txt'' fmm_bare))) = buckets (fmm_db fmm_bare)"
    "at_Delete ''flag'' at_bare = (Some ErrAttBucketNotFound, at_bare)"
    by blast+
  from f1 f2 f3 a1 a2 a3 b1 b2 ok bad bare show ?thesis by blast
qed


text \<open>
  C5 as stated fails: with the bucket absent, \<^verbatim>\<open>Delete\<close> of the attribute registry
  returns the bucket-not-found error.
\<close>

theorem attributes_delete_without_namespace_fails:
  "tx_Bucket additionalDataBucket (buckets (at_db at_bare)) = None \<and>
   fst (at_Delete ''flag'' at_bare) = Some ErrAttBucketNotFound"
  by (simp add: at_Delete_def store_defs sample_defs)

section \<open>Connection parameters\<close>

text \<open>
  C9. \<^verbatim>\<open>StoreOrUpdateServerInfo\<close> validates before it persists: for parameters whose
  port is outside 0..65535 or whose user is empty the call returns a validation error (the
  invalid-port error, the empty-user error, or the invalid-address error when the address
  is rejected first) and the manager, with its store and its stored parameters, is
  unchanged, so that \<^verbatim>\<open>GetServerInfo\<close> returns what it returned before.
\<close>

theorem invalid_params_rejected:
  assumes "Port info < 0 \<or> Port info > 65535 \<or> User info = []"
  shows "\<exists>e. StoreOrUpdateServerInfo g nt info tm = (Some e, tm) \<and>
             (e = ErrInvalidPort (Port info) \<or> e = ErrEmptyUser \<or>
              (\<exists>msg. e = ErrInvalidAddressFormat msg))"
  using assms
  by (auto simp: StoreOrUpdateServerInfo_def validate_def split: option.splits)

theorem invalid_params_rejected_witness:
  "Port \<lparr>Address = ''localhost'', Port = 70000, User = ''admin''\<rparr> > 65535 \<and>
   User \<lparr>Address = ''localhost'', Port = 8080, User = []\<rparr> = [] \<and>
   fst (StoreOrUpdateServerInfo tagged_gob local_net
          \<lparr>Address = ''localhost'', Port = 70000, User = ''admin''\<rparr> tm_a) \<noteq> None \<and>
   snd (StoreOrUpdateServerInfo tagged_gob local_net
          \<lparr>Address = ''localhost'', Port = 70000, User = ''admin''\<rparr> tm_a) = tm_a \<and>
   fst (StoreOrUpdateServerInfo tagged_gob local_net
          \<lparr>Address = ''localhost'', Port = 8080, User = []\<rparr> tm_a) \<noteq> None \<and>
   snd (StoreOrUpdateServerInfo tagged_gob local_net
          \<lparr>Address = ''localhost'', Port = 8080, User = []\<rparr> tm_a) = tm_a \<and>
   GetServerInfo tm_a = Inr \<lparr>Address = ''localhost'', Port = 8080, User = ''admin''\<rparr>"
proof -
  have p: "Port \<lparr>Address = ''localhost'', Port = 70000, User = ''admin''\<rparr> > 65535"
    by simp
  have u: "User \<lparr>Address = ''localhost'', Port = 8080, User = []\<rparr> = []"
    by simp
  from p invalid_params_rejected
    [of "\<lparr>Address = ''localhost'', Port = 70000, User = ''admin''\<rparr>" tagged_gob local_net tm_a]
  obtain e1 where 1: "StoreOrUpdateServerInfo tagged_gob local_net
          \<lparr>Address = ''localhost'', Port = 70000, User = ''admin''\<rparr> tm_a = (Some e1, tm_a)"
    by blast
  from u invalid_params_rejected
    [of "\<lparr>Address = ''localhost'', Port = 8080, User = []\<rparr>" tagged_gob local_net tm_a]
  obtain e2 where 2: "StoreOrUpdateServerInfo tagged_gob local_net
          \<lparr>Address = ''localhost'', Port = 8080, User = []\<rparr> tm_a = (Some e2, tm_a)"
    by blast
  have 3: "GetServerInfo tm_a = Inr \<lparr>Address = ''localhost'', Port = 8080, User = ''admin''\<rparr>"
    by (simp add: GetServerInfo_def tm_a_def)
  from p u 1 2 3 show ?thesis by simp
qed

section \<open>Synchronisation\<close>

text \<open>
  C2 fails on the code. A registry holds one entry; the commit that re-writes it fails
  with an I/O error and the flush that follows succeeds. \<^verbatim>\<open>syncFile\<close>
  (\<^verbatim>\<open>syncAttribute\<close>) returns the I/O error, the callback of \<^verbatim>\<open>Range\<close> drops it
  and \<^verbatim>\<open>sync\<close> returns no error, in both registries.
\<close>

theorem sync_drops_write_failure:
  "fst (fmm_syncFile tagged_gob ''/a/f.txt'' (fmm_a [True])) = Some ErrIO \<and>
   fst (fmm_sync tagged_gob (fmm_a [True])) = None \<and>
   fst (at_syncAttribute tagged_gob ''flag'' (at_a [True])) = Some ErrIO \<and>
   fst (at_sync tagged_gob (at_a [True])) = None"
  by (simp add: fmm_sync_def fmm_syncFile_def fmm_StoreOrUpdate_def at_sync_def
      at_syncAttribute_def at_StoreOrUpdate_def store_defs names sample_defs)

section \<open>The error message of a record\<close>

lemma UpdateStatus_message:
  assumes "keyed (fmm_m fmm)"
    and "map_of (fmm_m (snd (fmm_UpdateStatus g now k st n err fmm))) k' = Some r'"
  shows "\<exists>r. map_of (fmm_m fmm) k' = Some r \<and>
             (ErrorMsg r' = ErrorMsg r \<or> (k' = k \<and> err = Some (ErrorMsg r') \<and> Status r' = st))"
  using assms keyed_map_of [of "fmm_m fmm" k]
  by (auto simp: fmm_UpdateStatus_m update_conv' split: option.splits if_splits)

lemma apply_status_op_keyed:
  "keyed (fmm_m fmm) \<Longrightarrow> keyed (fmm_m (snd (apply_status_op g now op fmm)))"
  by (cases op) (simp_all add: fmm_Start_def fmm_SetError_def fmm_SetSuccess_def keyed_UpdateStatus)

lemma apply_status_op_message:
  assumes "keyed (fmm_m fmm)"
    and "map_of (fmm_m (snd (apply_status_op g now op fmm))) k = Some r'"
  shows "\<exists>r. map_of (fmm_m fmm) k = Some r \<and>
             (ErrorMsg r' = ErrorMsg r \<or>
              (op = OpSetError k (Some (ErrorMsg r')) \<and> Status r' = StatusFailed))"
proof (cases op)
  case (OpStart x)
  with UpdateStatus_message [OF assms(1), of g now x StatusInProgress 0 None k r'] assms(2)
  show ?thesis by (auto simp: fmm_Start_def)
next
  case (OpSetError x err)
  with UpdateStatus_message [OF assms(1), of g now x StatusFailed 0 err k r'] assms(2)
  show ?thesis by (auto simp: fmm_SetError_def)
next
  case (OpSetSuccess x n)
  with UpdateStatus_message [OF assms(1), of g now x StatusCompleted n None k r'] assms(2)
  show ?thesis by (auto simp: fmm_SetSuccess_def)
qed

text \<open>
  C6 (as amended). The status operations assign the error message only when they are given
  a non-nil error, which among \<^verbatim>\<open>Start\<close>, \<^verbatim>\<open>SetError\<close> and \<^verbatim>\<open>SetSuccess\<close> only
  \<^verbatim>\<open>SetError\<close> does, and they never clear it. So after any sequence of these calls on
  a registry whose entries are filed under their source paths, the error message of the
  record of a key \<open>k\<close> is either the message that record had before the sequence or the
  text of an error given to a \<^verbatim>\<open>SetError(k, _)\<close> of the sequence.
\<close>

theorem error_message_only_from_setError:
  assumes "keyed (fmm_m fmm)"
    and "map_of (fmm_m (run_status_ops g ops fmm)) k = Some r'"
  shows "\<exists>r. map_of (fmm_m fmm) k = Some r \<and>
             (ErrorMsg r' = ErrorMsg r \<or>
              (\<exists>now. (now, OpSetError k (Some (ErrorMsg r'))) \<in> set ops))"
  using assms
proof (induction ops arbitrary: fmm)
  case Nil
  then show ?case by simp
next
  case (Cons a ops)
  obtain now op where a: "a = (now, op)" by (cases a)
  let ?fmm1 = "snd (apply_status_op g now op fmm)"
  have k1: "keyed (fmm_m ?fmm1)"
    using Cons.prems(1) by (rule apply_status_op_keyed)
  from Cons.prems(2) a have "map_of (fmm_m (run_status_ops g ops ?fmm1)) k = Some r'"
    by simp
  from Cons.IH [OF k1 this] obtain r1 where r1: "map_of (fmm_m ?fmm1) k = Some r1"
    and m1: "ErrorMsg r' = ErrorMsg r1 \<or> (\<exists>now. (now, OpSetError k (Some (ErrorMsg r'))) \<in> set ops)"
    by blast
  from apply_status_op_message [OF Cons.prems(1) r1] obtain r where r: "map_of (fmm_m fmm) k = Some r"
    and m: "ErrorMsg r1 = ErrorMsg r \<or> op = OpSetError k (Some (ErrorMsg r1))"
    by blast
  from m1 m a have "ErrorMsg r' = ErrorMsg r \<or>
              (\<exists>now. (now, OpSetError k (Some (ErrorMsg r'))) \<in> set (a # ops))"
    by auto
  with r show ?case by blast
qed


theorem error_message_only_from_setError_witness:
  "keyed (fmm_m (fmm_a [])) \<and>
   map_of (fmm_m (run_status_ops tagged_gob
       [(8, OpSetError ''/a/f.txt'' (Some ''refused'')), (9, OpSetSuccess ''/a/f.txt'' 100)]
       (fmm_a []))) ''/a/f.txt'' =
     Some \<lparr>SourcePath = ''/a/f.txt'', TargetPath = ''/b/f.txt'', Status = StatusCompleted,
           BytesTransferred = 100, TimeStart = 0, TimeEnd = 9, ErrorMsg = ''refused''\<rparr> \<and>
   (\<exists>r. map_of (fmm_m (fmm_a [])) ''/a/f.txt'' = Some r \<and>
        (''refused'' = ErrorMsg r \<or>
         (\<exists>now. (now, OpSetError ''/a/f.txt'' (Some ''refused'')) \<in>
            set [(8, OpSetError ''/a/f.txt'' (Some ''refused'')),
                 (9, OpSetSuccess ''/a/f.txt'' 100)])))"
proof -
  have k: "keyed (fmm_m (fmm_a []))"
    by (simp add: keyed_def sample_defs)
  have r: "map_of (fmm_m (run_status_ops tagged_gob
       [(8, OpSetError ''/a/f.txt'' (Some ''refused'')), (9, OpSetSuccess ''/a/f.txt'' 100)]
       (fmm_a []))) ''/a/f.txt'' =
     Some \<lparr>SourcePath = ''/a/f.txt'', TargetPath = ''/b/f.txt'', Status = StatusCompleted,
           BytesTransferred = 100, TimeStart = 0, TimeEnd = 9, ErrorMsg = ''refused''\<rparr>"
    by (simp add: status_defs store_defs names sample_defs)
  from error_message_only_from_setError [OF k r] k r show ?thesis
    by simp
qed

text \<open>
  C6 as stated fails: \<^verbatim>\<open>SetError\<close> followed by \<^verbatim>\<open>SetSuccess\<close> on the same key
  leaves a Completed record that still carries the error message.
\<close>

theorem stale_error_message_after_success:
  "fmm_Load ''/a/f.txt''
     (snd (fmm_SetSuccess tagged_gob 9 ''/a/f.txt'' 100
        (snd (fmm_SetError tagged_gob 8 ''/a/f.txt'' (Some ''refused'') (fmm_a []))))) =
   (\<lparr>SourcePath = ''/a/f.txt'', TargetPath = ''/b/f.txt'', Status = StatusCompleted,
      BytesTransferred = 100, TimeStart = 0, TimeEnd = 9, ErrorMsg = ''refused''\<rparr>, True)"
  by (simp add: fmm_SetSuccess_def fmm_SetError_def fmm_UpdateStatus_def
        fmm_Load_def fmm_StoreOrUpdate_def assign_status_def Let_def store_defs names sample_defs)

section \<open>Construction and recovery\<close>

lemma init_buckets_creates:
  "init_buckets tx = Inr tx' \<Longrightarrow>
     tx_Bucket filesBucket tx' \<noteq> None \<and> tx_Bucket serverBucket tx' \<noteq> None \<and>
     tx_Bucket additionalDataBucket tx' \<noteq> None"
  by (auto simp: init_buckets_def tx_CreateBucketIfNotExists_def tx_Bucket_def update_conv'
      split: if_splits option.splits sum.splits)

lemma fmm_loadAll_ForEach_err:
  "fst (fmm_loadAll_ForEach g b fmm) \<in> {None, Some ErrGob}"
  by (induction g b fmm rule: fmm_loadAll_ForEach.induct) (auto split: option.splits)

lemma at_loadAll_ForEach_err:
  "fst (at_loadAll_ForEach g b at) \<in> {None, Some ErrGob}"
  by (induction g b at rule: at_loadAll_ForEach.induct) (auto split: option.splits)

lemma fmm_loadAll_err: "fst (fmm_loadAll g tx fmm) \<in> {None, Some ErrGob}"
  using fmm_loadAll_ForEach_err by (auto simp: fmm_loadAll_def split: option.splits)

lemma at_loadAll_err:
  "tx_Bucket additionalDataBucket tx \<noteq> None \<Longrightarrow> fst (at_loadAll g tx at) \<in> {None, Some ErrGob}"
  using at_loadAll_ForEach_err by (auto simp: at_loadAll_def split: option.splits)

lemma loadServerInfo_err: "fst (loadServerInfo g tx tm) \<in> {None, Some ErrGob}"
  by (auto simp: loadServerInfo_def split: option.splits)

lemma db_Sync_err: "fst (db_Sync d) \<in> {None, Some ErrIO}"
  by (auto simp: db_Sync_def io_fault_def split: list.splits bool.splits)

lemma on_Files_loadAll_err: "fst (on_Files (fmm_loadAll g tx) tm) \<in> {None, Some ErrGob}"
  using fmm_loadAll_err [of g tx "tm_Files tm"]
  by (auto simp: on_Files_def split: prod.splits)

lemma on_Attributes_loadAll_err:
  "tx_Bucket additionalDataBucket tx \<noteq> None \<Longrightarrow>
     fst (on_Attributes (at_loadAll g tx) tm) \<in> {None, Some ErrGob}"
  using at_loadAll_err [of tx g "tm_Attributes tm"]
  by (auto simp: on_Attributes_def split: prod.splits)

lemma loadExistingData_err:
  assumes "tx_Bucket additionalDataBucket (buckets (db tm)) \<noteq> None"
  shows "fst (loadExistingData g tm) \<noteq> Some ErrAttBucketNotFound"
proof -
  let ?tx = "buckets (db tm)"
  show ?thesis
  proof (cases "on_Files (fmm_loadAll g ?tx) tm")
    case f: (Pair r1 tm1)
    with on_Files_loadAll_err [of g ?tx tm] have r1: "r1 \<in> {None, Some ErrGob}" by simp
    show ?thesis
    proof (cases "on_Attributes (at_loadAll g ?tx) tm1")
      case a: (Pair r2 tm2)
      with on_Attributes_loadAll_err [OF assms, of g tm1] have r2: "r2 \<in> {None, Some ErrGob}"
        by simp
      show ?thesis
      proof (cases "loadServerInfo g ?tx tm2")
        case s: (Pair r3 tm3)
        with loadServerInfo_err [of g ?tx tm2] have r3: "r3 \<in> {None, Some ErrGob}" by simp
        obtain r4 d4 where y: "db_Sync (db tm3) = (r4, d4)" by (cases "db_Sync (db tm3)")
        with db_Sync_err [of "db tm3"] have r4: "r4 \<in> {None, Some ErrIO}" by simp
        from f a s y r1 r2 r3 r4 show ?thesis
          by (auto simp: loadExistingData_def Let_def)
      qed
    qed
  qed
qed

lemma db_Update_init_buckets:
  "db_Update init_buckets d = (r, d1) \<Longrightarrow>
     r \<noteq> Some ErrAttBucketNotFound \<and>
     (r = None \<longrightarrow> tx_Bucket additionalDataBucket (buckets d1) \<noteq> None)"
  using init_buckets_creates [of "buckets d"]
  by (auto simp: db_Update_def io_fault_def init_buckets_def tx_CreateBucketIfNotExists_def
      split: if_splits sum.splits list.splits bool.splits option.splits)

text \<open>
  C10. \<^verbatim>\<open>NewTransferManager\<close> never fails with the bucket-not-found error of the
  attribute registry's \<^verbatim>\<open>loadAll\<close>: the three buckets are created in a committed
  transaction before the load of existing data runs, whatever the lock file held, whatever
  I/O operation fails and whatever the decoder does.
\<close>

theorem recovery_never_misses_namespace:
  "NewTransferManager g fl lockfile \<noteq> Inl ErrAttBucketNotFound"
proof (cases "bolt_Open fl lockfile")
  case (Inl e)
  then show ?thesis
    by (auto simp: NewTransferManager_def bolt_Open_def split: prod.splits bool.splits)
next
  case (Inr d)
  obtain r d1 where u: "db_Update init_buckets d = (r, d1)"
    by (cases "db_Update init_buckets d")
  note ib = db_Update_init_buckets [OF u]
  show ?thesis
  proof (cases r)
    case (Some e)
    with Inr u ib show ?thesis by (simp add: NewTransferManager_def)
  next
    case None
    let ?tm = "\<lparr>serverInfo = None, preexisting = (lockfile \<noteq> None), Files = [],
                Attributes = [], db = d1\<rparr>"
    from None ib have "tx_Bucket additionalDataBucket (buckets (db ?tm)) \<noteq> None"
      by simp
    from loadExistingData_err [OF this, of g] Inr u None show ?thesis
      by (auto simp: NewTransferManager_def Let_def split: prod.splits option.splits)
  qed
qed

section \<open>The recovery round trip\<close>

lemma update_fresh: "k \<notin> fst ` set al \<Longrightarrow> AList.update k v al = al @ [(k, v)]"
  by (induction al) auto

lemma init_buckets_empty:
  "init_buckets [] = Inr [(filesBucket, []), (serverBucket, []), (additionalDataBucket, [])]"
  by (simp add: init_buckets_def tx_CreateBucketIfNotExists_def names)

lemma init_buckets_present:
  "init_buckets [(filesBucket, b), (serverBucket, sb), (additionalDataBucket, ab)] =
     Inr [(filesBucket, b), (serverBucket, sb), (additionalDataBucket, ab)]"
  by (simp add: init_buckets_def tx_CreateBucketIfNotExists_def names)

lemma io_fault_pair:
  "io_fault d = (f, d') \<Longrightarrow> buckets d' = buckets d \<and> opened d' = opened d"
  by (auto simp: io_fault_def split: list.splits)

lemma bolt_Open_Inr:
  "bolt_Open fl lockfile = Inr d \<Longrightarrow>
     opened d \<and> buckets d = (case lockfile of None \<Rightarrow> [] | Some r \<Rightarrow> r)"
  by (auto simp: bolt_Open_def dest!: io_fault_pair split: prod.splits bool.splits)

lemma db_Update_None:
  "db_Update fn d = (None, d') \<Longrightarrow> opened d \<and> opened d' \<and> fn (buckets d) = Inr (buckets d')"
  by (auto simp: db_Update_def dest!: io_fault_pair
      split: if_splits sum.splits prod.splits bool.splits)

lemma db_Sync_pair:
  "db_Sync d = (r, d') \<Longrightarrow> buckets d' = buckets d \<and> opened d' = opened d"
  by (auto simp: db_Sync_def dest!: io_fault_pair split: if_splits prod.splits bool.splits)

lemma db_Close_pair: "db_Close d = (r, d') \<Longrightarrow> buckets d' = buckets d"
  by (auto simp: db_Close_def dest!: io_fault_pair split: if_splits prod.splits bool.splits)

lemma Close_buckets: "buckets (db (snd (Close tm))) = buckets (db tm)"
  by (auto simp: Close_def dest!: db_Sync_pair db_Close_pair split: prod.splits option.splits)

lemma NewTransferManager_fresh:
  assumes "NewTransferManager g fl None = Inr tm"
  shows "Files tm = [] \<and> buckets (db tm) = fresh_layout [] \<and> opened (db tm)"
proof -
  from assms obtain d d1 where d: "bolt_Open fl None = Inr d"
    and u: "db_Update init_buckets d = (None, d1)"
    and tm: "tm = \<lparr>serverInfo = None, preexisting = False, Files = [],
                   Attributes = [], db = d1\<rparr>"
    by (auto simp: NewTransferManager_def split: sum.splits prod.splits option.splits)
  from bolt_Open_Inr [OF d] db_Update_None [OF u] tm show ?thesis
    by (simp add: init_buckets_empty fresh_layout_def)
qed

lemma store_one:
  assumes "on_Files (fmm_StoreOrUpdate g r) tm = (None, tm')"
    and "buckets (db tm) = fresh_layout b" and "SourcePath r \<notin> fst ` set b"
    and "SourcePath r \<notin> fst ` set (Files tm)"
  shows "\<exists>v. encFile g r = Some v \<and> buckets (db tm') = fresh_layout (b @ [(SourcePath r, v)]) \<and>
             Files tm' = Files tm @ [(SourcePath r, r)]"
proof -
  let ?fn = "\<lambda>tx. case tx_CreateBucketIfNotExists filesBucket tx of
                      Inl e \<Rightarrow> Inl e
                    | Inr (b, tx') \<Rightarrow>
                        (case encFile g r of
                           None \<Rightarrow> Inl ErrGob
                         | Some buf \<Rightarrow>
                             (case bucket_Put (SourcePath r) buf b of
                                Inl e \<Rightarrow> Inl e
                              | Inr b' \<Rightarrow> Inr (AList.update filesBucket b' tx')))"
  obtain res d where u: "db_Update ?fn (db tm) = (res, d)"
    by (cases "db_Update ?fn (db tm)")
  with assms(1) have res: "res = None"
    by (auto simp: on_Files_def fmm_StoreOrUpdate_def tm_Files_def split: option.splits)
  with assms(1) u have tm': "Files tm' = AList.update (SourcePath r) r (Files tm)" "db tm' = d"
    by (auto simp: on_Files_def fmm_StoreOrUpdate_def tm_Files_def)
  from db_Update_None [OF u [unfolded res]] have "?fn (buckets (db tm)) = Inr (buckets d)"
    by simp
  with assms(2,3) have "\<exists>v. encFile g r = Some v \<and> buckets d = fresh_layout (b @ [(SourcePath r, v)])"
    by (auto simp: fresh_layout_def tx_CreateBucketIfNotExists_def bucket_Put_def names update_fresh
        split: option.splits if_splits)
  with tm' assms(4) show ?thesis
    by (simp add: update_fresh)
qed

lemma store_many:
  assumes "store_records g rs tm = (None, tm')"
    and "buckets (db tm) = fresh_layout b"
    and "distinct (map SourcePath rs)"
    and "SourcePath ` set rs \<inter> fst ` set b = {}"
    and "SourcePath ` set rs \<inter> fst ` set (Files tm) = {}"
  shows "(\<forall>r\<in>set rs. encFile g r \<noteq> None) \<and>
         buckets (db tm') = fresh_layout (b @ map (\<lambda>r. (SourcePath r, the (encFile g r))) rs) \<and>
         Files tm' = Files tm @ map (\<lambda>r. (SourcePath r, r)) rs"
  using assms
proof (induction rs arbitrary: tm b)
  case Nil
  then show ?case by simp
next
  case (Cons r rs)
  from Cons.prems(1) obtain tm1 where s1: "on_Files (fmm_StoreOrUpdate g r) tm = (None, tm1)"
    and rest: "store_records g rs tm1 = (None, tm')"
    by (cases "on_Files (fmm_StoreOrUpdate g r) tm") (auto split: option.splits)
  from store_one [OF s1 Cons.prems(2)] Cons.prems(4,5)
  obtain v where v: "encFile g r = Some v"
    and b1: "buckets (db tm1) = fresh_layout (b @ [(SourcePath r, v)])"
    and f1: "Files tm1 = Files tm @ [(SourcePath r, r)]"
    by auto
  have d: "distinct (map SourcePath rs)" and nr: "SourcePath r \<notin> SourcePath ` set rs"
    using Cons.prems(3) by auto
  have i1: "SourcePath ` set rs \<inter> fst ` set (b @ [(SourcePath r, v)]) = {}"
    using Cons.prems(4) nr by auto
  have i2: "SourcePath ` set rs \<inter> fst ` set (Files tm1) = {}"
    using Cons.prems(5) nr f1 by auto
  from Cons.IH [OF rest b1 d i1 i2] v f1 show ?case
    by simp
qed

lemma fmm_loadAll_ForEach_lossless:
  assumes "\<forall>r\<in>set rs. decFile g (enc r) = Some r"
    and "distinct (map SourcePath rs)"
    and "SourcePath ` set rs \<inter> fst ` set (fmm_m fmm) = {}"
  shows "fmm_loadAll_ForEach g (map (\<lambda>r. (SourcePath r, enc r)) rs) fmm =
           (None, fmm\<lparr>fmm_m := fmm_m fmm @ map (\<lambda>r. (SourcePath r, r)) rs\<rparr>)"
  using assms
proof (induction rs arbitrary: fmm)
  case Nil
  then show ?case by simp
next
  case (Cons r rs)
  let ?fmm1 = "fmm\<lparr>fmm_m := AList.update (SourcePath r) r (fmm_m fmm)\<rparr>"
  have m1: "fmm_m ?fmm1 = fmm_m fmm @ [(SourcePath r, r)]"
    using Cons.prems(3) by (simp add: update_fresh)
  have "SourcePath ` set rs \<inter> fst ` set (fmm_m ?fmm1) = {}"
    using Cons.prems(2,3) m1 by auto
  with Cons.IH [of ?fmm1] Cons.prems(1,2) m1 show ?case
    by simp
qed


lemma loadExistingData_layout:
  assumes "opened (db tm)"
    and "buckets (db tm) = fresh_layout (map (\<lambda>r. (SourcePath r, enc r)) rs)"
    and "Files tm = []"
    and "\<forall>r\<in>set rs. decFile g (enc r) = Some r"
    and "distinct (map SourcePath rs)"
  shows "fst (loadExistingData g tm) = fst (db_Sync (db tm))"
    and "Files (snd (loadExistingData g tm)) = map (\<lambda>r. (SourcePath r, r)) rs"
    and "preexisting (snd (loadExistingData g tm)) = preexisting tm"
proof -
  let ?b = "map (\<lambda>r. (SourcePath r, enc r)) rs"
  let ?m = "map (\<lambda>r. (SourcePath r, r)) rs"
  have fb: "tx_Bucket filesBucket (fresh_layout ?b) = Some ?b"
    and ab: "tx_Bucket additionalDataBucket (fresh_layout ?b) = Some []"
    and sb: "tx_Bucket serverBucket (fresh_layout ?b) = Some []"
    by (simp_all add: tx_Bucket_def fresh_layout_def names)
  have "fmm_loadAll_ForEach g ?b (tm_Files tm) = (None, (tm_Files tm)\<lparr>fmm_m := [] @ ?m\<rparr>)"
    using fmm_loadAll_ForEach_lossless [OF assms(4,5), of "tm_Files tm"] assms(3)
    by (simp add: tm_Files_def)
  then have f: "on_Files (fmm_loadAll g (fresh_layout ?b)) tm = (None, tm\<lparr>Files := ?m\<rparr>)"
    by (simp add: on_Files_def fmm_loadAll_def fb tm_Files_def)
  have a: "on_Attributes (at_loadAll g (fresh_layout ?b)) tm1 = (None, tm1)"
    for tm1
    by (simp add: on_Attributes_def at_loadAll_def ab tm_Attributes_def)
  have s: "loadServerInfo g (fresh_layout ?b) tm1 = (None, tm1)"
    for tm1
    by (simp add: loadServerInfo_def sb)
  have l: "loadExistingData g tm =
      (case db_Sync (db tm) of (r, d) \<Rightarrow> (r, tm\<lparr>Files := ?m, db := d\<rparr>))"
    using assms(1,2) f a s by (simp add: loadExistingData_def Let_def)
  show "fst (loadExistingData g tm) = fst (db_Sync (db tm))"
    and "Files (snd (loadExistingData g tm)) = ?m"
    and "preexisting (snd (loadExistingData g tm)) = preexisting tm"
    by (simp_all add: l split: prod.splits)
qed

lemma reopen_layout:
  assumes "\<forall>r\<in>set rs. decFile g (enc r) = Some r"
    and "distinct (map SourcePath rs)"
    and "NewTransferManager g fl (Some (fresh_layout (map (\<lambda>r. (SourcePath r, enc r)) rs))) = Inr tm2"
  shows "preexisting tm2 \<and> Files tm2 = map (\<lambda>r. (SourcePath r, r)) rs"
proof -
  let ?root = "fresh_layout (map (\<lambda>r. (SourcePath r, enc r)) rs)"
  from assms(3) obtain d d1 where d: "bolt_Open fl (Some ?root) = Inr d"
    and u: "db_Update init_buckets d = (None, d1)"
    and l: "loadExistingData g \<lparr>serverInfo = None, preexisting = True, Files = [],
                   Attributes = [], db = d1\<rparr> = (None, tm2)"
    by (auto simp: NewTransferManager_def split: sum.splits prod.splits option.splits)
  let ?tm = "\<lparr>serverInfo = None, preexisting = True, Files = [], Attributes = [], db = d1\<rparr>"
  from bolt_Open_Inr [OF d] db_Update_None [OF u]
  have o: "opened (db ?tm)" and b: "buckets (db ?tm) = ?root"
    by (simp_all add: fresh_layout_def init_buckets_present)
  from loadExistingData_layout(2,3) [OF o b _ assms(1,2)] l show ?thesis
    by simp
qed

lemma bolt_Open_quiet:
  "True \<notin> set fl \<Longrightarrow> \<exists>d. bolt_Open fl lockfile = Inr d \<and> True \<notin> set (faults d)"
  by (auto simp: bolt_Open_def io_fault_def split: list.splits)

lemma db_Update_quiet:
  "opened d \<Longrightarrow> fn (buckets d) = Inr tx \<Longrightarrow> True \<notin> set (faults d) \<Longrightarrow>
     \<exists>d1. db_Update fn d = (None, d1) \<and> True \<notin> set (faults d1)"
  by (auto simp: db_Update_def io_fault_def split: list.splits)

lemma db_Sync_quiet: "opened d \<Longrightarrow> True \<notin> set (faults d) \<Longrightarrow> fst (db_Sync d) = None"
  by (auto simp: db_Sync_def io_fault_def split: list.splits)

lemma reopen_quiet:
  assumes "\<forall>r\<in>set rs. decFile g (enc r) = Some r"
    and "distinct (map SourcePath rs)"
    and "True \<notin> set fl"
  shows "\<exists>tm2. NewTransferManager g fl
            (Some (fresh_layout (map (\<lambda>r. (SourcePath r, enc r)) rs))) = Inr tm2"
proof -
  let ?root = "fresh_layout (map (\<lambda>r. (SourcePath r, enc r)) rs)"
  from bolt_Open_quiet [OF assms(3)] obtain d where d: "bolt_Open fl (Some ?root) = Inr d"
    and q: "True \<notin> set (faults d)"
    by blast
  from bolt_Open_Inr [OF d] have od: "opened d" and bd: "buckets d = ?root"
    by simp_all
  have "init_buckets (buckets d) = Inr ?root"
    by (simp add: bd fresh_layout_def init_buckets_present)
  from db_Update_quiet [of d init_buckets, OF od this q] obtain d1 where u: "db_Update init_buckets d = (None, d1)"
    and q1: "True \<notin> set (faults d1)"
    by blast
  let ?tm = "\<lparr>serverInfo = None, preexisting = True, Files = [], Attributes = [], db = d1\<rparr>"
  from db_Update_None [OF u] bd
  have o: "opened (db ?tm)" and b: "buckets (db ?tm) = ?root"
    by (simp_all add: fresh_layout_def init_buckets_present)
  from loadExistingData_layout(1) [OF o b _ assms(1,2)] db_Sync_quiet [of d1] o q1
  have "fst (loadExistingData g ?tm) = None"
    by simp
  then obtain tm2 where "loadExistingData g ?tm = (None, tm2)"
    by (cases "loadExistingData g ?tm") auto
  with d u show ?thesis
    by (simp add: NewTransferManager_def)
qed

text \<open>
  C1 (as amended). A manager is built on a path without a lock file, \<open>N \<ge> 1\<close> records
  with distinct source paths are stored through it without error, and it is closed
  without \<^verbatim>\<open>Finish\<close>; the codec decodes what it encoded. Then every manager built on
  the lock file left behind reports \<^verbatim>\<open>IsPreexisting\<close> and its \<^verbatim>\<open>GetSlice\<close> returns
  exactly those \<open>N\<close> records, unchanged; and such a manager is built whenever no I/O
  operation of its construction fails.
\<close>

theorem recovery_roundtrip:
  assumes "NewTransferManager g fl1 None = Inr tm1"
    and "store_records g rs tm1 = (None, tm1')"
    and "distinct (map SourcePath rs)"
    and "rs \<noteq> []"
    and "Close tm1' = (None, tm1'')"
    and "\<forall>r v. encFile g r = Some v \<longrightarrow> decFile g v = Some r"
  shows "(\<forall>tm2. NewTransferManager g fl2 (lockFile tm1'') = Inr tm2 \<longrightarrow>
            IsPreexisting tm2 \<and>
            (\<exists>xs. fmm_GetSlice (tm_Files tm2) = Inr xs \<and> mset xs = mset rs)) \<and>
         (True \<notin> set fl2 \<longrightarrow> (\<exists>tm2. NewTransferManager g fl2 (lockFile tm1'') = Inr tm2))"
proof -
  let ?enc = "\<lambda>r. the (encFile g r)"
  let ?root = "fresh_layout (map (\<lambda>r. (SourcePath r, ?enc r)) rs)"
  from NewTransferManager_fresh [OF assms(1)]
  have f: "Files tm1 = []" and b: "buckets (db tm1) = fresh_layout []"
    by simp_all
  from store_many [OF assms(2) b assms(3)] f
  have e: "\<forall>r\<in>set rs. encFile g r \<noteq> None" and b': "buckets (db tm1') = ?root"
    by simp_all
  from assms(5) Close_buckets [of tm1'] b' have lf: "lockFile tm1'' = Some ?root"
    by (simp add: lockFile_def)
  from e assms(6) have dec: "\<forall>r\<in>set rs. decFile g (?enc r) = Some r"
    by auto
  have 1: "IsPreexisting tm2 \<and> (\<exists>xs. fmm_GetSlice (tm_Files tm2) = Inr xs \<and> mset xs = mset rs)"
    if "NewTransferManager g fl2 (lockFile tm1'') = Inr tm2" for tm2
  proof -
    from reopen_layout [OF dec assms(3)] that lf
    have "preexisting tm2" and "Files tm2 = map (\<lambda>r. (SourcePath r, r)) rs"
      by simp_all
    with assms(4) show ?thesis
      by (simp add: IsPreexisting_def fmm_GetSlice_def tm_Files_def comp_def)
  qed
  have 2: "\<exists>tm2. NewTransferManager g fl2 (lockFile tm1'') = Inr tm2" if "True \<notin> set fl2"
    using reopen_quiet [OF dec assms(3) that] lf by simp
  from 1 2 show ?thesis by blast
qed


theorem recovery_roundtrip_witness:
  "NewTransferManager tagged_gob [] None = Inr tm_fresh \<and>
   store_records tagged_gob [file_a, file_b] tm_fresh = (None, tm_stored) \<and>
   distinct (map SourcePath [file_a, file_b]) \<and>
   Close tm_stored = (None, tm_stored_closed) \<and>
   (\<exists>tm2. NewTransferManager tagged_gob [] (lockFile tm_stored_closed) = Inr tm2 \<and>
          IsPreexisting tm2 \<and>
          (\<exists>xs. fmm_GetSlice (tm_Files tm2) = Inr xs \<and> mset xs = mset [file_a, file_b]))"
proof -
  have n: "NewTransferManager tagged_gob [] None = Inr tm_fresh"
    by (simp add: ctor_defs store_defs names sample_defs manager_inputs)
  have s: "store_records tagged_gob [file_a, file_b] tm_fresh = (None, tm_stored)"
    by (simp add: on_Files_def tm_Files_def fmm_StoreOrUpdate_def store_defs names sample_defs
        manager_inputs)
  have d: "distinct (map SourcePath [file_a, file_b])"
    by (simp add: sample_defs manager_inputs)
  have ne: "[file_a, file_b] \<noteq> []"
    by simp
  have c: "Close tm_stored = (None, tm_stored_closed)"
    by (simp add: Close_def store_defs sample_defs manager_inputs)
  have l: "\<forall>r v. encFile tagged_gob r = Some v \<longrightarrow> decFile tagged_gob v = Some r"
    by (auto simp: tagged_gob_def)
  have q: "True \<notin> set []"
    by simp
  from recovery_roundtrip [OF n s d ne c l, of "[]"] q n s d c show ?thesis
    by blast
qed


text \<open>
  C1 as stated fails for \<open>N = 0\<close>: the second manager reports \<^verbatim>\<open>IsPreexisting\<close>,
  but its \<^verbatim>\<open>GetSlice\<close> returns the no-files-found error and not the empty sequence.
\<close>

theorem recovery_of_no_records_fails:
  "NewTransferManager tagged_gob [] None = Inr tm_fresh \<and>
   store_records tagged_gob [] tm_fresh = (None, tm_fresh) \<and>
   Close tm_fresh = (None, tm_closed) \<and>
   NewTransferManager tagged_gob [] (lockFile tm_closed) = Inr tm_reopened \<and>
   IsPreexisting tm_reopened \<and>
   fmm_GetSlice (tm_Files tm_reopened) = Inl ErrNoFilesFound"
  by (simp add: ctor_defs store_defs names sample_defs tm_fresh_def tm_closed_def tm_reopened_def)

section \<open>The traversal of \<^verbatim>\<open>Operate\<close>\<close>

lemma Operate_Range_append:
  "Operate_Range g clock transfer (ks1 @ ks2) fmm =
     (case Operate_Range g clock transfer ks1 fmm of
        (Some e, fmm') \<Rightarrow> (Some e, fmm')
      | (None, fmm') \<Rightarrow> Operate_Range g clock transfer ks2 fmm')"
  by (induction ks1 arbitrary: fmm) (auto split: option.splits prod.splits)

lemma operated_fields [simp]:
  "SourcePath (operated clock res r) = SourcePath r"
  "TargetPath (operated clock res r) = TargetPath r"
  "BytesTransferred (operated clock res r) = fst res"
  "Status (operated clock res r) = (if snd res = None then StatusCompleted else StatusFailed)"
  "ErrorMsg (operated clock res r) = (case snd res of None \<Rightarrow> ErrorMsg r | Some err \<Rightarrow> err)"
  by (auto simp: operated_def Let_def split: prod.splits option.splits)

lemma db_Update_env:
  "opened (snd (db_Update fn d)) = opened d"
  "True \<notin> set (faults d) \<Longrightarrow> True \<notin> set (faults (snd (db_Update fn d)))"
  by (auto simp: db_Update_def io_fault_def split: sum.splits list.splits bool.splits)

lemma fmm_StoreOrUpdate_db:
  "\<exists>fn. fmm_db (snd (fmm_StoreOrUpdate g r fmm)) = snd (db_Update fn (fmm_db fmm))"
  unfolding fmm_StoreOrUpdate_def
  by (rule exI [where x = "\<lambda>tx. case tx_CreateBucketIfNotExists filesBucket tx of
                      Inl e \<Rightarrow> Inl e
                    | Inr (b, tx') \<Rightarrow>
                        (case encFile g r of
                           None \<Rightarrow> Inl ErrGob
                         | Some buf \<Rightarrow>
                             (case bucket_Put (SourcePath r) buf b of
                                Inl e \<Rightarrow> Inl e
                              | Inr b' \<Rightarrow> Inr (AList.update filesBucket b' tx')))"])
    (simp split: prod.splits option.splits)

lemma fmm_StoreOrUpdate_env:
  "opened (fmm_db (snd (fmm_StoreOrUpdate g r fmm))) = opened (fmm_db fmm)"
  "True \<notin> set (faults (fmm_db fmm)) \<Longrightarrow>
     True \<notin> set (faults (fmm_db (snd (fmm_StoreOrUpdate g r fmm))))"
  using fmm_StoreOrUpdate_db [of g r fmm] by (auto simp: db_Update_env)

lemma fmm_StoreOrUpdate_quiet:
  assumes "opened (fmm_db fmm)" and "True \<notin> set (faults (fmm_db fmm))"
    and "encFile g r \<noteq> None" and "SourcePath r \<noteq> []" and "length (SourcePath r) \<le> 32768"
  shows "fst (fmm_StoreOrUpdate g r fmm) = None"
proof -
  let ?fn = "\<lambda>tx. case tx_CreateBucketIfNotExists filesBucket tx of
                      Inl e \<Rightarrow> Inl e
                    | Inr (b, tx') \<Rightarrow>
                        (case encFile g r of
                           None \<Rightarrow> Inl ErrGob
                         | Some buf \<Rightarrow>
                             (case bucket_Put (SourcePath r) buf b of
                                Inl e \<Rightarrow> Inl e
                              | Inr b' \<Rightarrow> Inr (AList.update filesBucket b' tx')))"
  from assms(3,4,5) have "\<exists>tx. ?fn (buckets (fmm_db fmm)) = Inr tx"
    by (auto simp: tx_CreateBucketIfNotExists_def bucket_Put_def names split: option.splits)
  then obtain tx where "?fn (buckets (fmm_db fmm)) = Inr tx" ..
  from db_Update_quiet [of "fmm_db fmm" ?fn, OF assms(1) this assms(2)]
  show ?thesis
    by (auto simp: fmm_StoreOrUpdate_def)
qed

lemma fmm_UpdateStatus_env:
  "opened (fmm_db (snd (fmm_UpdateStatus g now k st n err fmm))) = opened (fmm_db fmm)"
  "True \<notin> set (faults (fmm_db fmm)) \<Longrightarrow>
     True \<notin> set (faults (fmm_db (snd (fmm_UpdateStatus g now k st n err fmm))))"
  by (auto simp: fmm_UpdateStatus_def fmm_Load_def fmm_StoreOrUpdate_env split: option.splits)

lemma fmm_UpdateStatus_quiet:
  assumes "opened (fmm_db fmm)" and "True \<notin> set (faults (fmm_db fmm))"
    and "\<forall>r. encFile g r \<noteq> None"
    and "map_of (fmm_m fmm) k = Some r" and "SourcePath r = k"
    and "k \<noteq> []" and "length k \<le> 32768"
  shows "fst (fmm_UpdateStatus g now k st n err fmm) = None"
    and "fmm_m (snd (fmm_UpdateStatus g now k st n err fmm)) =
           AList.update k (assign_status now st n err r) (fmm_m fmm)"
proof -
  show 1: "fst (fmm_UpdateStatus g now k st n err fmm) = None"
    using assms fmm_StoreOrUpdate_quiet [OF assms(1,2), where g = g and r = "assign_status now st n err r"]
    by (simp add: fmm_UpdateStatus_def fmm_Load_def)
  show "fmm_m (snd (fmm_UpdateStatus g now k st n err fmm)) =
           AList.update k (assign_status now st n err r) (fmm_m fmm)"
    using 1 assms(4,5) by (simp add: fmm_UpdateStatus_m)
qed

lemma Operate_visit_quiet:
  assumes "opened (fmm_db fmm)" and "True \<notin> set (faults (fmm_db fmm))"
    and "\<forall>r. encFile g r \<noteq> None"
    and "map_of (fmm_m fmm) k = Some r" and "SourcePath r = k"
    and "k \<noteq> []" and "length k \<le> 32768"
    and "\<forall>s t f. transfer s t f = (tr s t, f)"
  shows "\<exists>fmm'. Operate_visit g clock transfer r fmm = (None, fmm') \<and>
           fmm_m fmm' = AList.update k (operated clock (tr k (TargetPath r)) r) (fmm_m fmm) \<and>
           opened (fmm_db fmm') \<and> True \<notin> set (faults (fmm_db fmm'))"
proof -
  let ?u1 = "fmm_UpdateStatus g (clock k StatusInProgress) k StatusInProgress 0 None fmm"
  let ?r1 = "assign_status (clock k StatusInProgress) StatusInProgress 0 None r"
  obtain nb err where res: "tr k (TargetPath r) = (nb, err)"
    by (cases "tr k (TargetPath r)")
  let ?st = "if err = None then StatusCompleted else StatusFailed"
  let ?u2 = "fmm_UpdateStatus g (clock k ?st) k ?st nb err (snd ?u1)"
  from fmm_UpdateStatus_quiet [OF assms(1-7)]
  have u1: "fst ?u1 = None" and m1: "fmm_m (snd ?u1) = AList.update k ?r1 (fmm_m fmm)"
    by simp_all
  have e1: "opened (fmm_db (snd ?u1))" "True \<notin> set (faults (fmm_db (snd ?u1)))"
    using assms(1,2) by (simp_all add: fmm_UpdateStatus_env)
  have l1: "map_of (fmm_m (snd ?u1)) k = Some ?r1"
    by (simp add: m1 update_conv')
  have s1: "SourcePath ?r1 = k"
    using assms(5) by simp
  from fmm_UpdateStatus_quiet [OF e1 assms(3) l1 s1 assms(6,7)]
  have u2: "fst ?u2 = None"
    and m2: "fmm_m (snd ?u2) = AList.update k (assign_status (clock k ?st) ?st nb err ?r1) (fmm_m fmm)"
    by (simp_all add: m1)
  have e2: "opened (fmm_db (snd ?u2))" "True \<notin> set (faults (fmm_db (snd ?u2)))"
    using e1 by (simp_all add: fmm_UpdateStatus_env)
  have v: "Operate_visit g clock transfer r fmm = ?u2"
    using u1 assms(5,8) res
    by (cases ?u1) (auto simp: Operate_visit_def split: option.splits)
  have o: "operated clock (tr k (TargetPath r)) r = assign_status (clock k ?st) ?st nb err ?r1"
    using res assms(5) by (auto simp: operated_def Let_def split: option.splits)
  from v u2 m2 e2 o show ?thesis
    by (cases ?u2) auto
qed


lemma Operate_Range_quiet:
  assumes "\<forall>r. encFile g r \<noteq> None" and "\<forall>s t f. transfer s t f = (tr s t, f)"
    and "opened (fmm_db fmm)" and "True \<notin> set (faults (fmm_db fmm))"
    and "keyed (fmm_m fmm)" and "distinct ks" and "set ks \<subseteq> set (map fst (fmm_m fmm))"
    and "\<forall>k\<in>set ks. k \<noteq> [] \<and> length k \<le> 32768"
  shows "\<exists>fmm'. Operate_Range g clock transfer ks fmm = (None, fmm') \<and>
           opened (fmm_db fmm') \<and> True \<notin> set (faults (fmm_db fmm')) \<and>
           keyed (fmm_m fmm') \<and> map fst (fmm_m fmm') = map fst (fmm_m fmm) \<and>
           (\<forall>k. map_of (fmm_m fmm') k =
                  (if k \<in> set ks
                   then map_option (\<lambda>r. operated clock (tr k (TargetPath r)) r)
                          (map_of (fmm_m fmm) k)
                   else map_of (fmm_m fmm) k))"
  using assms(3-8)
proof (induction ks arbitrary: fmm)
  case Nil
  then show ?case by simp
next
  case (Cons k ks)
  from Cons.prems(5) have "k \<in> fst ` set (fmm_m fmm)"
    by auto
  then obtain r where r: "map_of (fmm_m fmm) k = Some r"
    by (cases "map_of (fmm_m fmm) k") (auto simp: map_of_eq_None_iff)
  from keyed_map_of [OF Cons.prems(3) r] have sp: "SourcePath r = k" .
  from Cons.prems(6) have sz: "k \<noteq> []" "length k \<le> 32768"
    by simp_all
  let ?r' = "operated clock (tr k (TargetPath r)) r"
  from Operate_visit_quiet [OF Cons.prems(1,2) assms(1) r sp sz assms(2), of clock]
  obtain fmm1 where v: "Operate_visit g clock transfer r fmm = (None, fmm1)"
    and m1: "fmm_m fmm1 = AList.update k ?r' (fmm_m fmm)"
    and e1: "opened (fmm_db fmm1)" "True \<notin> set (faults (fmm_db fmm1))"
    by blast
  have k1: "keyed (fmm_m fmm1)"
    using Cons.prems(3) sp by (simp add: m1 keyed_update)
  have keys1: "map fst (fmm_m fmm1) = map fst (fmm_m fmm)"
    using \<open>k \<in> fst ` set (fmm_m fmm)\<close> by (simp add: m1 update_keys)
  have d: "distinct ks" and nk: "k \<notin> set ks"
    using Cons.prems(4) by simp_all
  have sub: "set ks \<subseteq> set (map fst (fmm_m fmm1))"
    using Cons.prems(5) keys1 by simp
  have szs: "\<forall>k\<in>set ks. k \<noteq> [] \<and> length k \<le> 32768"
    using Cons.prems(6) by simp
  from Cons.IH [OF e1 k1 d sub szs]
  obtain fmm' where rest: "Operate_Range g clock transfer ks fmm1 = (None, fmm')"
    and e': "opened (fmm_db fmm')" "True \<notin> set (faults (fmm_db fmm'))"
    and k': "keyed (fmm_m fmm')" and keys': "map fst (fmm_m fmm') = map fst (fmm_m fmm1)"
    and look: "\<forall>x. map_of (fmm_m fmm') x =
                  (if x \<in> set ks
                   then map_option (\<lambda>r. operated clock (tr x (TargetPath r)) r)
                          (map_of (fmm_m fmm1) x)
                   else map_of (fmm_m fmm1) x)"
    by blast
  have run: "Operate_Range g clock transfer (k # ks) fmm = (None, fmm')"
    using r v rest by simp
  have look': "map_of (fmm_m fmm') x =
                  (if x \<in> set (k # ks)
                   then map_option (\<lambda>r. operated clock (tr x (TargetPath r)) r)
                          (map_of (fmm_m fmm) x)
                   else map_of (fmm_m fmm) x)" for x
    using look [rule_format, of x] nk r by (auto simp: m1 update_conv')
  from run e' k' keys' keys1 look' show ?case
    by simp
qed

lemma fmm_sync_Range_keep:
  assumes "keyed (fmm_m fmm)"
  shows "fmm_m (fmm_sync_Range g ks fmm) = fmm_m fmm \<and>
         opened (fmm_db (fmm_sync_Range g ks fmm)) = opened (fmm_db fmm) \<and>
         (True \<notin> set (faults (fmm_db fmm)) \<longrightarrow>
            True \<notin> set (faults (fmm_db (fmm_sync_Range g ks fmm))))"
  using assms
proof (induction ks arbitrary: fmm)
  case Nil
  then show ?case by simp
next
  case (Cons k ks)
  show ?case
  proof (cases "map_of (fmm_m fmm) k")
    case None
    with Cons show ?thesis by simp
  next
    case (Some v)
    from keyed_map_of [OF Cons.prems Some] have sp: "SourcePath v = k" .
    let ?s = "fmm_StoreOrUpdate g v fmm"
    have m: "fmm_m (snd ?s) = fmm_m fmm"
      using Some sp by (simp add: fmm_StoreOrUpdate_m update_triv)
    have e: "opened (fmm_db (snd ?s)) = opened (fmm_db fmm)"
      "True \<notin> set (faults (fmm_db fmm)) \<longrightarrow> True \<notin> set (faults (fmm_db (snd ?s)))"
      by (simp_all add: fmm_StoreOrUpdate_env)
    have k: "keyed (fmm_m (snd ?s))"
      using Cons.prems m by simp
    show ?thesis
    proof (cases "fst ?s")
      case None
      then have "fmm_sync_Range g (k # ks) fmm = fmm_sync_Range g ks (snd ?s)"
        using Some by (cases ?s) (simp add: fmm_syncFile_def)
      with Cons.IH [OF k] m e show ?thesis by simp
    next
      case (Some e')
      then have "fmm_sync_Range g (k # ks) fmm = snd ?s"
        using \<open>map_of (fmm_m fmm) k = Some v\<close> by (cases ?s) (simp add: fmm_syncFile_def)
      with m e show ?thesis by simp
    qed
  qed
qed

lemma fmm_sync_quiet:
  assumes "keyed (fmm_m fmm)" and "opened (fmm_db fmm)" and "True \<notin> set (faults (fmm_db fmm))"
  shows "fst (fmm_sync g fmm) = None \<and> fmm_m (snd (fmm_sync g fmm)) = fmm_m fmm"
proof -
  let ?f = "fmm_sync_Range g (map fst (fmm_m fmm)) fmm"
  from fmm_sync_Range_keep [OF assms(1), of g "map fst (fmm_m fmm)"] assms(2,3)
  have m: "fmm_m ?f = fmm_m fmm" and o: "opened (fmm_db ?f)"
    and q: "True \<notin> set (faults (fmm_db ?f))"
    by simp_all
  from db_Sync_quiet [OF o q] m show ?thesis
    by (cases "db_Sync (fmm_db ?f)") (simp add: fmm_sync_def Let_def)
qed

lemma fmm_Operate_quiet:
  assumes "\<forall>r. encFile g r \<noteq> None" and "\<forall>s t f. transfer s t f = (tr s t, f)"
    and "opened (fmm_db fmm)" and "True \<notin> set (faults (fmm_db fmm))"
    and "keyed (fmm_m fmm)" and "distinct (map fst (fmm_m fmm))"
    and "\<forall>k\<in>set (map fst (fmm_m fmm)). k \<noteq> [] \<and> length k \<le> 32768"
    and "fmm_m fmm \<noteq> []"
  shows "\<exists>fmm'. fmm_Operate g clock transfer fmm = (Inr (map snd (fmm_m fmm')), fmm') \<and>
           map fst (fmm_m fmm') = map fst (fmm_m fmm) \<and>
           (\<forall>k. map_of (fmm_m fmm') k =
                  map_option (\<lambda>r. operated clock (tr k (TargetPath r)) r) (map_of (fmm_m fmm) k))"
proof -
  from Operate_Range_quiet [OF assms(1-6) _ assms(7), of clock]
  obtain fmm1 where run: "Operate_Range g clock transfer (map fst (fmm_m fmm)) fmm = (None, fmm1)"
    and e1: "opened (fmm_db fmm1)" "True \<notin> set (faults (fmm_db fmm1))"
    and k1: "keyed (fmm_m fmm1)" and keys1: "map fst (fmm_m fmm1) = map fst (fmm_m fmm)"
    and look: "\<forall>k. map_of (fmm_m fmm1) k =
                  (if k \<in> set (map fst (fmm_m fmm))
                   then map_option (\<lambda>r. operated clock (tr k (TargetPath r)) r)
                          (map_of (fmm_m fmm) k)
                   else map_of (fmm_m fmm) k)"
    by auto
  let ?f2 = "snd (fmm_sync g fmm1)"
  from fmm_sync_quiet [OF k1 e1, of g]
  have s: "fst (fmm_sync g fmm1) = None" and m2: "fmm_m ?f2 = fmm_m fmm1"
    by simp_all
  from keys1 assms(8) have ne: "fmm_m ?f2 \<noteq> []"
    by (auto simp: m2)
  have res: "fmm_Operate g clock transfer fmm = (Inr (map snd (fmm_m ?f2)), ?f2)"
    using run s ne by (cases "fmm_sync g fmm1") (simp add: fmm_Operate_def fmm_GetSlice_def)
  have look2: "map_of (fmm_m ?f2) k =
      map_option (\<lambda>r. operated clock (tr k (TargetPath r)) r) (map_of (fmm_m fmm) k)" for k
  proof (cases "k \<in> set (map fst (fmm_m fmm))")
    case True
    with look [rule_format, of k] show ?thesis by (simp add: m2)
  next
    case False
    then have "map_of (fmm_m fmm) k = None"
      by (simp add: map_of_eq_None_iff)
    with False look [rule_format, of k] show ?thesis by (simp add: m2)
  qed
  from res keys1 look2 show ?thesis
    by (auto simp: m2)
qed


lemma fmm_Operate_abort:
  assumes "map fst (fmm_m fmm) = ks1 @ k # ks2"
    and "Operate_Range g clock transfer ks1 fmm = (None, fmm1)"
    and "map_of (fmm_m fmm1) k = Some meta"
    and "Operate_visit g clock transfer meta fmm1 = (Some e, fmm2)"
  shows "fmm_Operate g clock transfer fmm = (Inl e, fmm2)"
  using assms by (simp add: fmm_Operate_def Operate_Range_append)

text \<open>
  C3. First, the whole traversal. On an open store without I/O failure, with an encoder
  that does not fail and a transfer function that leaves the registry alone,
  \<^verbatim>\<open>Operate\<close> on a non-empty registry (entries filed under their source paths, keys
  that Bolt accepts) visits every record and returns the snapshot of the final registry.
  There each record carries the byte count its transfer returned, and is Failed with the
  error's text when its transfer returned an error and Completed otherwise: a transfer
  error marks the record Failed and the traversal goes on to the remaining records.
  Second, the abort, for any transfer function. Let \<^verbatim>\<open>Operate\<close> have visited the keys
  \<open>ks1\<close> without a bookkeeping error and reach the key \<open>k\<close>, whose record is
  \<open>meta\<close>. If the status update before the transfer fails, or the one after it,
  \<^verbatim>\<open>Operate\<close> returns that error with the registry as that update left it: no
  further record is visited and no sync is done. In particular, when the transfer function
  has removed the record's key, \<^verbatim>\<open>Operate\<close> returns the key-not-found error with the
  registry as the transfer function left it.
\<close>

theorem operate_continues_or_aborts:
  "(opened (fmm_db fmm) \<and> True \<notin> set (faults (fmm_db fmm)) \<and> (\<forall>r. encFile g r \<noteq> None) \<and>
    keyed (fmm_m fmm) \<and> distinct (map fst (fmm_m fmm)) \<and> fmm_m fmm \<noteq> [] \<and>
    (\<forall>k\<in>set (map fst (fmm_m fmm)). k \<noteq> [] \<and> length k \<le> 32768) \<and>
    (\<forall>s t f. transfer s t f = (tr s t, f)) \<longrightarrow>
      (\<exists>fmm'. fmm_Operate g clock transfer fmm = (Inr (map snd (fmm_m fmm')), fmm') \<and>
         map fst (fmm_m fmm') = map fst (fmm_m fmm) \<and>
         (\<forall>k r. map_of (fmm_m fmm) k = Some r \<longrightarrow>
            (\<exists>r'. map_of (fmm_m fmm') k = Some r' \<and>
                  BytesTransferred r' = fst (tr k (TargetPath r)) \<and>
                  Status r' = (if snd (tr k (TargetPath r)) = None then StatusCompleted
                               else StatusFailed) \<and>
                  (\<forall>err. snd (tr k (TargetPath r)) = Some err \<longrightarrow> ErrorMsg r' = err))))) \<and>
   (map fst (fmm_m fmm) = ks1 @ k # ks2 \<and>
    Operate_Range g clock transfer ks1 fmm = (None, fmm1) \<and>
    map_of (fmm_m fmm1) k = Some meta \<longrightarrow>
      (let src = SourcePath meta;
           u1 = fmm_UpdateStatus g (clock src StatusInProgress) src StatusInProgress 0 None fmm1;
           t = transfer src (TargetPath meta) (snd u1);
           st = (if snd (fst t) = None then StatusCompleted else StatusFailed);
           u2 = fmm_UpdateStatus g (clock src st) src st (fst (fst t)) (snd (fst t)) (snd t)
       in (\<forall>e. fst u1 = Some e \<longrightarrow> fmm_Operate g clock transfer fmm = (Inl e, snd u1)) \<and>
          (fst u1 = None \<longrightarrow>
             (\<forall>e. fst u2 = Some e \<longrightarrow> fmm_Operate g clock transfer fmm = (Inl e, snd u2)) \<and>
             (map_of (fmm_m (snd t)) src = None \<longrightarrow>
                fmm_Operate g clock transfer fmm = (Inl (ErrKeyNotFound src), snd t)))))"
proof (intro conjI impI)
  assume h: "opened (fmm_db fmm) \<and> True \<notin> set (faults (fmm_db fmm)) \<and> (\<forall>r. encFile g r \<noteq> None) \<and>
    keyed (fmm_m fmm) \<and> distinct (map fst (fmm_m fmm)) \<and> fmm_m fmm \<noteq> [] \<and>
    (\<forall>k\<in>set (map fst (fmm_m fmm)). k \<noteq> [] \<and> length k \<le> 32768) \<and>
    (\<forall>s t f. transfer s t f = (tr s t, f))"
  then have "\<forall>r. encFile g r \<noteq> None" "\<forall>s t f. transfer s t f = (tr s t, f)"
    "opened (fmm_db fmm)" "True \<notin> set (faults (fmm_db fmm))" "keyed (fmm_m fmm)"
    "distinct (map fst (fmm_m fmm))"
    "\<forall>k\<in>set (map fst (fmm_m fmm)). k \<noteq> [] \<and> length k \<le> 32768" "fmm_m fmm \<noteq> []"
    by blast+
  from fmm_Operate_quiet [OF this, of clock]
  obtain fmm' where res: "fmm_Operate g clock transfer fmm = (Inr (map snd (fmm_m fmm')), fmm')"
    and keys: "map fst (fmm_m fmm') = map fst (fmm_m fmm)"
    and look: "\<forall>k. map_of (fmm_m fmm') k =
        map_option (\<lambda>r. operated clock (tr k (TargetPath r)) r) (map_of (fmm_m fmm) k)"
    by blast
  have "\<exists>r'. map_of (fmm_m fmm') k = Some r' \<and>
          BytesTransferred r' = fst (tr k (TargetPath r)) \<and>
          Status r' = (if snd (tr k (TargetPath r)) = None then StatusCompleted else StatusFailed) \<and>
          (\<forall>err. snd (tr k (TargetPath r)) = Some err \<longrightarrow> ErrorMsg r' = err)"
    if "map_of (fmm_m fmm) k = Some r" for k r
    using look [rule_format, of k] that by simp
  with res keys
  show "\<exists>fmm'. fmm_Operate g clock transfer fmm = (Inr (map snd (fmm_m fmm')), fmm') \<and>
         map fst (fmm_m fmm') = map fst (fmm_m fmm) \<and>
         (\<forall>k r. map_of (fmm_m fmm) k = Some r \<longrightarrow>
            (\<exists>r'. map_of (fmm_m fmm') k = Some r' \<and>
                  BytesTransferred r' = fst (tr k (TargetPath r)) \<and>
                  Status r' = (if snd (tr k (TargetPath r)) = None then StatusCompleted
                               else StatusFailed) \<and>
                  (\<forall>err. snd (tr k (TargetPath r)) = Some err \<longrightarrow> ErrorMsg r' = err)))"
    by blast
next
  assume p: "map fst (fmm_m fmm) = ks1 @ k # ks2 \<and>
    Operate_Range g clock transfer ks1 fmm = (None, fmm1) \<and>
    map_of (fmm_m fmm1) k = Some meta"
  let ?src = "SourcePath meta"
  let ?u1 = "fmm_UpdateStatus g (clock ?src StatusInProgress) ?src StatusInProgress 0 None fmm1"
  let ?t = "transfer ?src (TargetPath meta) (snd ?u1)"
  let ?st = "if snd (fst ?t) = None then StatusCompleted else StatusFailed"
  let ?u2 = "fmm_UpdateStatus g (clock ?src ?st) ?src ?st (fst (fst ?t)) (snd (fst ?t)) (snd ?t)"
  note abort = fmm_Operate_abort [of fmm ks1 k ks2 g clock transfer fmm1 meta]
  have a1: "fmm_Operate g clock transfer fmm = (Inl e, snd ?u1)" if "fst ?u1 = Some e" for e
  proof -
    from that have "Operate_visit g clock transfer meta fmm1 = (Some e, snd ?u1)"
      by (cases ?u1) (simp add: Operate_visit_def)
    with abort p show ?thesis by blast
  qed
  have v2: "Operate_visit g clock transfer meta fmm1 = ?u2" if "fst ?u1 = None"
  proof -
    obtain nb err f2 where t: "?t = ((nb, err), f2)"
      by (cases ?t) auto
    with that show ?thesis
      by (cases ?u1; cases err) (simp_all add: Operate_visit_def)
  qed
  have a2: "fmm_Operate g clock transfer fmm = (Inl e, snd ?u2)"
    if "fst ?u1 = None" and "fst ?u2 = Some e" for e
  proof -
    from v2 [OF that(1)] that(2) have "Operate_visit g clock transfer meta fmm1 = (Some e, snd ?u2)"
      by (cases ?u2) simp
    with abort p show ?thesis by blast
  qed
  have a3: "fmm_Operate g clock transfer fmm = (Inl (ErrKeyNotFound ?src), snd ?t)"
    if "fst ?u1 = None" and "map_of (fmm_m (snd ?t)) ?src = None"
  proof -
    from that(2) have "?u2 = (Some (ErrKeyNotFound ?src), snd ?t)"
      by (rule fmm_UpdateStatus_absent)
    with a2 [OF that(1), of "ErrKeyNotFound ?src"] show ?thesis by simp
  qed
  from a1 a2 a3
  show "let src = SourcePath meta;
           u1 = fmm_UpdateStatus g (clock src StatusInProgress) src StatusInProgress 0 None fmm1;
           t = transfer src (TargetPath meta) (snd u1);
           st = (if snd (fst t) = None then StatusCompleted else StatusFailed);
           u2 = fmm_UpdateStatus g (clock src st) src st (fst (fst t)) (snd (fst t)) (snd t)
       in (\<forall>e. fst u1 = Some e \<longrightarrow> fmm_Operate g clock transfer fmm = (Inl e, snd u1)) \<and>
          (fst u1 = None \<longrightarrow>
             (\<forall>e. fst u2 = Some e \<longrightarrow> fmm_Operate g clock transfer fmm = (Inl e, snd u2)) \<and>
             (map_of (fmm_m (snd t)) src = None \<longrightarrow>
                fmm_Operate g clock transfer fmm = (Inl (ErrKeyNotFound src), snd t)))"
    unfolding Let_def by blast
qed


lemmas operate_defs = fmm_Operate_def Operate_visit_def fmm_UpdateStatus_def fmm_Load_def
  fmm_StoreOrUpdate_def assign_status_def fmm_sync_def fmm_syncFile_def fmm_GetSlice_def
  fmm_Delete_def Let_def

theorem operate_continues_or_aborts_witness:
  "(\<exists>fmm'. fmm_Operate tagged_gob clock_a transfer_a (fmm_ab []) =
             (Inr (map snd (fmm_m fmm')), fmm') \<and>
      (\<exists>r'. map_of (fmm_m fmm') ''/a/f.txt'' = Some r' \<and> BytesTransferred r' = 10 \<and>
            Status r' = StatusFailed \<and> ErrorMsg r' = ''refused'') \<and>
      (\<exists>r'. map_of (fmm_m fmm') ''/a/g.txt'' = Some r' \<and> BytesTransferred r' = 100 \<and>
            Status r' = StatusCompleted)) \<and>
   fmm_Operate tagged_gob clock_a transfer_a (fmm_ab [True, True]) = (Inl ErrIO, fmm_ab [True]) \<and>
   fmm_Operate tagged_gob clock_a transfer_a (fmm_ab [False, True, True]) =
     (Inl ErrIO, fmm_started [True]) \<and>
   fmm_Operate tagged_gob clock_a transfer_del (fmm_ab []) =
     (Inl (ErrKeyNotFound ''/a/f.txt''), fmm_b)"
proof -
  note inst = operate_continues_or_aborts [where g = tagged_gob and clock = clock_a]
  have quiet: "opened (fmm_db (fmm_ab [])) \<and> True \<notin> set (faults (fmm_db (fmm_ab []))) \<and>
      (\<forall>r. encFile tagged_gob r \<noteq> None) \<and> keyed (fmm_m (fmm_ab [])) \<and>
      distinct (map fst (fmm_m (fmm_ab []))) \<and> fmm_m (fmm_ab []) \<noteq> [] \<and>
      (\<forall>k\<in>set (map fst (fmm_m (fmm_ab []))). k \<noteq> [] \<and> length k \<le> 32768) \<and>
      (\<forall>s t f. transfer_a s t f = (result_a s t, f))"
    by (simp add: keyed_def sample_defs operate_inputs)
  have la: "map_of (fmm_m (fmm_ab [])) ''/a/f.txt'' = Some file_a"
    and lb: "map_of (fmm_m (fmm_ab [])) ''/a/g.txt'' = Some file_b"
    by (simp_all add: operate_inputs)
  have ra: "result_a ''/a/f.txt'' (TargetPath file_a) = (10, Some ''refused'')"
    and rb: "result_a ''/a/g.txt'' (TargetPath file_b) = (100, None)"
    by (simp_all add: operate_inputs)
  from inst [where transfer = transfer_a and tr = result_a and fmm = "fmm_ab []",
      THEN conjunct1, THEN mp, OF quiet]
  obtain fmm' where res: "fmm_Operate tagged_gob clock_a transfer_a (fmm_ab []) =
        (Inr (map snd (fmm_m fmm')), fmm')"
    and each: "\<forall>k r. map_of (fmm_m (fmm_ab [])) k = Some r \<longrightarrow>
            (\<exists>r'. map_of (fmm_m fmm') k = Some r' \<and>
                  BytesTransferred r' = fst (result_a k (TargetPath r)) \<and>
                  Status r' = (if snd (result_a k (TargetPath r)) = None then StatusCompleted
                               else StatusFailed) \<and>
                  (\<forall>err. snd (result_a k (TargetPath r)) = Some err \<longrightarrow> ErrorMsg r' = err))"
    by blast
  from each [rule_format, OF la] ra
  have fa: "\<exists>r'. map_of (fmm_m fmm') ''/a/f.txt'' = Some r' \<and> BytesTransferred r' = 10 \<and>
            Status r' = StatusFailed \<and> ErrorMsg r' = ''refused''"
    by simp
  from each [rule_format, OF lb] rb
  have fb: "\<exists>r'. map_of (fmm_m fmm') ''/a/g.txt'' = Some r' \<and> BytesTransferred r' = 100 \<and>
            Status r' = StatusCompleted"
    by auto
  have pos: "map fst (fmm_m (fmm_ab fl)) = [] @ ''/a/f.txt'' # [''/a/g.txt''] \<and>
      Operate_Range tagged_gob clock_a transfer [] (fmm_ab fl) = (None, fmm_ab fl) \<and>
      map_of (fmm_m (fmm_ab fl)) ''/a/f.txt'' = Some file_a" for fl transfer
    by (simp add: operate_inputs)
  note abort1 = inst [THEN conjunct2, THEN mp, OF pos [of "[True, True]" transfer_a],
      unfolded Let_def]
  note abort2 = inst [THEN conjunct2, THEN mp, OF pos [of "[False, True, True]" transfer_a],
      unfolded Let_def]
  note abort3 = inst [THEN conjunct2, THEN mp, OF pos [of "[]" transfer_del],
      unfolded Let_def]
  have u1_bad: "fmm_UpdateStatus tagged_gob (clock_a (SourcePath file_a) StatusInProgress)
        (SourcePath file_a) StatusInProgress 0 None (fmm_ab [True, True]) =
      (Some ErrIO, fmm_ab [True])"
    by (simp add: operate_defs store_defs names sample_defs operate_inputs)
  have u1_ok: "fmm_UpdateStatus tagged_gob (clock_a (SourcePath file_a) StatusInProgress)
        (SourcePath file_a) StatusInProgress 0 None (fmm_ab fl) = (None, fmm_started (tl fl))"
    if "fl = [] \<or> fl = [False, True, True]" for fl
    using that by (auto simp: operate_defs store_defs names sample_defs operate_inputs)
  have t_a: "transfer_a (SourcePath file_a) (TargetPath file_a) f = ((10, Some ''refused''), f)" for f
    by (simp add: sample_defs operate_inputs)
  have u2_bad: "fmm_UpdateStatus tagged_gob (clock_a (SourcePath file_a) StatusFailed)
        (SourcePath file_a) StatusFailed 10 (Some ''refused'') (fmm_started [True, True]) =
      (Some ErrIO, fmm_started [True])"
    by (simp add: operate_defs store_defs names sample_defs operate_inputs)
  have t_del: "transfer_del (SourcePath file_a) (TargetPath file_a) (fmm_started []) =
      ((0, Some ''gone''), fmm_b)"
    by (simp add: operate_defs store_defs names sample_defs operate_inputs)
  have gone: "map_of (fmm_m fmm_b) (SourcePath file_a) = None"
    by (simp add: sample_defs operate_inputs)
  have src: "SourcePath file_a = ''/a/f.txt''"
    by (simp add: sample_defs)
  from abort1 u1_bad
  have b1: "fmm_Operate tagged_gob clock_a transfer_a (fmm_ab [True, True]) =
      (Inl ErrIO, fmm_ab [True])"
    by simp
  from abort2
    u1_ok [of "[False, True, True]"] t_a u2_bad
  have b2: "fmm_Operate tagged_gob clock_a transfer_a (fmm_ab [False, True, True]) =
      (Inl ErrIO, fmm_started [True])"
    by simp
  from abort3 u1_ok [of "[]"] t_del gone src
  have b3: "fmm_Operate tagged_gob clock_a transfer_del (fmm_ab []) =
      (Inl (ErrKeyNotFound ''/a/f.txt''), fmm_b)"
    by simp
  from res fa fb b1 b2 b3 show ?thesis
    by blast
qed

end
